theory Spec2Isabelle
  imports Complex_Main
begin

section \<open>Python values and exceptions\<close>

text \<open>
  A Python \<^verbatim>\<open>str\<close> is a sequence of Unicode code points. The literals of the source are
  ASCII and are written as HOL strings; \<open>ustr\<close> gives their code points.
\<close>

type_synonym pystr = "nat list"

definition ustr :: "string \<Rightarrow> pystr" where
  "ustr s = map of_char s"

text \<open>
  A Python \<^verbatim>\<open>float\<close> is a double: a finite value, given by the real number it denotes, an
  infinity or a NaN. The model never computes with doubles itself: every operation on
  them (\<^verbatim>\<open>float\<close>, \<^verbatim>\<open>sum\<close>, \<^verbatim>\<open>/\<close>, the conversion of a timestamp) is the library's and a
  parameter of the model, so no rounding is assumed away.
\<close>

datatype pyfloat = Finite real | PosInf | NegInf | NaN

text \<open>
  The parser \<^verbatim>\<open>parsers/NZ.py\<close> works on dynamically typed values decoded from JSON.
  A decoded value is one of Python's \<^verbatim>\<open>None\<close>, \<^verbatim>\<open>bool\<close>, \<^verbatim>\<open>int\<close>, \<^verbatim>\<open>float\<close>, \<^verbatim>\<open>str\<close>,
  \<^verbatim>\<open>list\<close> and \<^verbatim>\<open>dict\<close>. A \<^verbatim>\<open>dict\<close> is an association list in insertion order; a lookup
  takes the first binding of a key (a decoded \<^verbatim>\<open>dict\<close> has each key once).
\<close>

datatype json =
    JNull
  | JBool bool
  | JInt int
  | JFloat pyfloat
  | JStr pystr
  | JArr "json list"
  | JObj "(pystr \<times> json) list"

text \<open>
  The exceptions the code can raise, by their Python class. \<open>RangeError\<close> stands for
  the failure of \<^verbatim>\<open>datetime.fromtimestamp\<close> on an instant outside the years 1..9999
  (\<^verbatim>\<open>ValueError\<close>, \<^verbatim>\<open>OverflowError\<close> or \<^verbatim>\<open>OSError\<close>, by magnitude and platform);
  \<open>ParserError\<close> is \<^verbatim>\<open>arrow\<close>'s, \<open>RequestException\<close> is \<^verbatim>\<open>requests\<close>'.
\<close>

datatype py_error =
    NotImplementedError
  | ZeroDivisionError
  | ValueError
  | TypeError
  | KeyError
  | AttributeError
  | IndexError
  | UnboundLocalError
  | OverflowError
  | JSONDecodeError
  | ParserError
  | RequestException
  | RangeError

definition bind :: "py_error + 'a \<Rightarrow> ('a \<Rightarrow> py_error + 'b) \<Rightarrow> py_error + 'b" where
  "bind m f = (case m of Inl e \<Rightarrow> Inl e | Inr x \<Rightarrow> f x)"

text \<open>\<^verbatim>\<open>d.get(key)\<close> and \<^verbatim>\<open>d.get(key, default)\<close>: only a \<^verbatim>\<open>dict\<close> has the method.\<close>

fun py_get_default :: "json \<Rightarrow> string \<Rightarrow> json \<Rightarrow> py_error + json" where
  "py_get_default (JObj d) k dflt =
     Inr (case map_of d (ustr k) of Some v \<Rightarrow> v | None \<Rightarrow> dflt)"
| "py_get_default _ k dflt = Inl AttributeError"

definition py_get :: "json \<Rightarrow> string \<Rightarrow> py_error + json" where
  "py_get v k = py_get_default v k JNull"

text \<open>\<^verbatim>\<open>v[key]\<close> with a string key: a missing key of a \<^verbatim>\<open>dict\<close> is a \<^verbatim>\<open>KeyError\<close>, a
  string index into a \<^verbatim>\<open>list\<close> or a \<^verbatim>\<open>str\<close> and a subscript of any other value a
  \<^verbatim>\<open>TypeError\<close>.\<close>

fun py_subscript :: "json \<Rightarrow> string \<Rightarrow> py_error + json" where
  "py_subscript (JObj d) k =
     (case map_of d (ustr k) of Some v \<Rightarrow> Inr v | None \<Rightarrow> Inl KeyError)"
| "py_subscript _ k = Inl TypeError"

text \<open>\<^verbatim>\<open>for item in v\<close>: a \<^verbatim>\<open>list\<close> yields its elements, a \<^verbatim>\<open>dict\<close> its keys, a \<^verbatim>\<open>str\<close>
  its characters; nothing else is iterable.\<close>

fun py_iter :: "json \<Rightarrow> py_error + json list" where
  "py_iter (JArr xs) = Inr xs"
| "py_iter (JObj d) = Inr (map (\<lambda>kv. JStr (fst kv)) d)"
| "py_iter (JStr s) = Inr (map (\<lambda>c. JStr [c]) s)"
| "py_iter _ = Inl TypeError"

text \<open>\<^verbatim>\<open>v in s\<close> for a set \<open>s\<close> of ints: the value is hashed first, so a \<^verbatim>\<open>list\<close> or a
  \<^verbatim>\<open>dict\<close> raises \<^verbatim>\<open>TypeError\<close>; \<^verbatim>\<open>True\<close> and \<^verbatim>\<open>False\<close> are the ints 1 and 0, and a
  \<^verbatim>\<open>float\<close> is a member when it is finite and equals a member.\<close>

fun py_in :: "json \<Rightarrow> int list \<Rightarrow> py_error + bool" where
  "py_in (JInt i) s = Inr (i \<in> set s)"
| "py_in (JBool b) s = Inr ((if b then 1 else 0) \<in> set s)"
| "py_in (JFloat (Finite r)) s = Inr (r \<in> set (map of_int s))"
| "py_in (JFloat _) s = Inr False"
| "py_in JNull s = Inr False"
| "py_in (JStr _) s = Inr False"
| "py_in (JArr _) s = Inl TypeError"
| "py_in (JObj _) s = Inl TypeError"

section \<open>The collaborators\<close>

text \<open>
  The libraries the parser calls are parameters of the model:
  \<^item> \<open>http_get url\<close> is the body of the response of \<^verbatim>\<open>Session.get(url)\<close>, or the exception
    of the transport;
  \<^item> \<open>json_loads\<close> is \<^verbatim>\<open>json.loads\<close> (and \<^verbatim>\<open>response.json()\<close> on a body), \<open>None\<close> where
    the text is not JSON;
  \<^item> \<open>find_all_script text\<close> is \<^verbatim>\<open>BeautifulSoup(text, "html.parser").find_all("script")\<close>:
    the script elements in document order, each with its attributes and its children
    (strings, for a script element);
  \<^item> \<open>float_str\<close> is \<^verbatim>\<open>float\<close> on a \<^verbatim>\<open>str\<close>, \<open>None\<close> where the text is not a number
    (\<^verbatim>\<open>ValueError\<close>); \<open>float_int\<close> is \<^verbatim>\<open>float\<close> on an \<^verbatim>\<open>int\<close>, \<open>None\<close> where the int is too
    large for a double (\<^verbatim>\<open>OverflowError\<close>);
  \<^item> \<open>float_sum\<close> is the built-in \<^verbatim>\<open>sum\<close> on a list of floats that is not empty, and
    \<open>float_truediv x n\<close> is \<^verbatim>\<open>x / n\<close> for a float \<open>x\<close> and an int \<open>n\<close> that is not 0: both
    round, and can give an infinity or a NaN;
  \<^item> \<open>float_timeval\<close> is the conversion of a float timestamp by \<^verbatim>\<open>datetime.fromtimestamp\<close>
    into whole seconds and microseconds, or the exception for an infinity or a NaN;
  \<^item> \<open>unicode_decimal\<close> is the Unicode database on the code points from 128 on: the
    value of a decimal digit (category Nd), \<open>None\<close> for any other character;
  \<^item> \<open>arrow_get\<close> and \<open>arrow_get_X\<close> tell whether the calls \<^verbatim>\<open>arrow.get(time, tzinfo="UTC")\<close>
    and \<^verbatim>\<open>arrow.get(str(timestamp), "X")\<close> of the debugging blocks return.
\<close>

record tag =
  tag_attrs :: "(pystr \<times> pystr) list"
  tag_contents :: "pystr list"

record env =
  http_get :: "string \<Rightarrow> py_error + pystr"
  json_loads :: "pystr \<Rightarrow> json option"
  find_all_script :: "pystr \<Rightarrow> tag list"
  float_str :: "pystr \<Rightarrow> pyfloat option"
  float_int :: "int \<Rightarrow> pyfloat option"
  float_sum :: "pyfloat list \<Rightarrow> pyfloat"
  float_truediv :: "pyfloat \<Rightarrow> int \<Rightarrow> pyfloat"
  float_timeval :: "pyfloat \<Rightarrow> py_error + int \<times> int"
  unicode_decimal :: "nat \<Rightarrow> nat option"
  arrow_get :: "json \<Rightarrow> bool"
  arrow_get_X :: "json \<Rightarrow> bool"

section \<open>Timestamps\<close>

datatype tzinfo = UTC

record datetime =
  dt_year :: int
  dt_month :: int
  dt_day :: int
  dt_hour :: int
  dt_minute :: int
  dt_second :: int
  dt_microsecond :: int
  dt_tzinfo :: "tzinfo option"

definition is_leap :: "int \<Rightarrow> bool" where
  "is_leap y = (y mod 4 = 0 \<and> (y mod 100 \<noteq> 0 \<or> y mod 400 = 0))"

definition days_in_month :: "int \<Rightarrow> int \<Rightarrow> int" where
  "days_in_month y m =
     (if m = 2 \<and> is_leap y then 29
      else [31, 28, 31, 30, 31, 30, 31, 31, 30, 31, 30, 31] ! nat (m - 1))"

definition days_before_month :: "int \<Rightarrow> int \<Rightarrow> int" where
  "days_before_month y m =
     [0, 31, 59, 90, 120, 151, 181, 212, 243, 273, 304, 334] ! nat (m - 1)
       + (if 2 < m \<and> is_leap y then 1 else 0)"

definition days_before_year :: "int \<Rightarrow> int" where
  "days_before_year y = (y - 1) * 365 + (y - 1) div 4 - (y - 1) div 100 + (y - 1) div 400"

text \<open>\<^verbatim>\<open>_ymd2ord\<close> and \<^verbatim>\<open>_ord2ymd\<close> of \<^verbatim>\<open>datetime.py\<close>: the proleptic Gregorian day number
  of a date (1 January of year 1 is day 1) and its inverse.\<close>

definition ymd2ord :: "int \<Rightarrow> int \<Rightarrow> int \<Rightarrow> int" where
  "ymd2ord y m d = days_before_year y + days_before_month y m + d"

definition ord2ymd :: "int \<Rightarrow> int \<times> int \<times> int" where
  "ord2ymd n0 =
     (let n = n0 - 1;
          n400 = n div 146097; n = n mod 146097;
          n100 = n div 36524; n = n mod 36524;
          n4 = n div 1461; n = n mod 1461;
          n1 = n div 365; n = n mod 365;
          y = n400 * 400 + 1 + n100 * 100 + n4 * 4 + n1
      in if n1 = 4 \<or> n100 = 4 then (y - 1, 12, 31)
         else
           let leapyear = (n1 = 3 \<and> (n4 \<noteq> 24 \<or> n100 = 3));
               month = (n + 50) div 32;
               preceding = [0, 31, 59, 90, 120, 151, 181, 212, 243, 273, 304, 334] ! nat (month - 1)
                             + (if 2 < month \<and> leapyear then 1 else 0)
           in if n < preceding
              then let month' = month - 1;
                       preceding' = preceding -
                         ([31, 28, 31, 30, 31, 30, 31, 31, 30, 31, 30, 31] ! nat (month' - 1)
                            + (if month' = 2 \<and> leapyear then 1 else 0))
                   in (y, month', n - preceding' + 1)
              else (y, month, n - preceding + 1))"

text \<open>The constructor \<^verbatim>\<open>datetime(y, m, d, hh, mm, ss, us, tz)\<close> checks every field.\<close>

definition mk_datetime ::
  "int \<Rightarrow> int \<Rightarrow> int \<Rightarrow> int \<Rightarrow> int \<Rightarrow> int \<Rightarrow> int \<Rightarrow> tzinfo option \<Rightarrow> datetime option" where
  "mk_datetime y m d hh mm ss us tz =
     (if 1 \<le> y \<and> y \<le> 9999 \<and> 1 \<le> m \<and> m \<le> 12 \<and> 1 \<le> d \<and> d \<le> days_in_month y m
         \<and> 0 \<le> hh \<and> hh \<le> 23 \<and> 0 \<le> mm \<and> mm \<le> 59 \<and> 0 \<le> ss \<and> ss \<le> 59
         \<and> 0 \<le> us \<and> us \<le> 999999
      then Some \<lparr>dt_year = y, dt_month = m, dt_day = d, dt_hour = hh, dt_minute = mm,
                  dt_second = ss, dt_microsecond = us, dt_tzinfo = tz\<rparr>
      else None)"

text \<open>The instant of an aware UTC \<^verbatim>\<open>datetime\<close>, in microseconds since the epoch
  (1 January 1970 is day 719163).\<close>

definition utc_micros :: "datetime \<Rightarrow> int" where
  "utc_micros t =
     ((((ymd2ord (dt_year t) (dt_month t) (dt_day t) - 719163) * 24 + dt_hour t) * 60
         + dt_minute t) * 60 + dt_second t) * 1000000 + dt_microsecond t"

subsection \<open>The epoch variant: \<^verbatim>\<open>datetime.fromtimestamp(v, tz=timezone.utc)\<close>\<close>

definition gmtime_datetime :: "int \<Rightarrow> int \<Rightarrow> py_error + datetime" where
  "gmtime_datetime t us =
     (let days = t div 86400; secs = t mod 86400;
          ymd = ord2ymd (719163 + days)
      in case mk_datetime (fst ymd) (fst (snd ymd)) (snd (snd ymd))
                (secs div 3600) (secs mod 3600 div 60) (secs mod 60) us (Some UTC) of
           None \<Rightarrow> Inl RangeError
         | Some dt \<Rightarrow> Inr dt)"

text \<open>An \<^verbatim>\<open>int\<close> (a \<^verbatim>\<open>bool\<close> is one) is whole seconds; a \<^verbatim>\<open>float\<close> is split by the library
  into whole seconds and microseconds.\<close>

fun fromtimestamp_utc :: "env \<Rightarrow> json \<Rightarrow> py_error + datetime" where
  "fromtimestamp_utc env (JInt t) = gmtime_datetime t 0"
| "fromtimestamp_utc env (JBool b) = gmtime_datetime (if b then 1 else 0) 0"
| "fromtimestamp_utc env (JFloat x) =
     bind (float_timeval env x) (\<lambda>tv. gmtime_datetime (fst tv) (snd tv))"
| "fromtimestamp_utc env _ = Inl TypeError"

subsection \<open>The ISO variant: \<^verbatim>\<open>datetime.strptime(v, "%Y-%m-%dT%H:%M:%SZ")\<close>\<close>

text \<open>
  \<^verbatim>\<open>strptime\<close> (\<^verbatim>\<open>Lib/_strptime.py\<close>) turns the format into a regular expression, one
  named group for each directive and the other characters as they are, compiles it with
  \<^verbatim>\<open>re.IGNORECASE\<close>, matches it at the start of the string and refuses a match that
  leaves characters over. The groups of the directives used here are
  \<^verbatim>\<open>%Y  \d\d\d\d\<close>,
  \<^verbatim>\<open>%m  1[0-2]|0[1-9]|[1-9]\<close>,
  \<^verbatim>\<open>%d  3[0-1]|[1-2]\d|0[1-9]|[1-9]| [1-9]\<close>,
  \<^verbatim>\<open>%H  2[0-3]|[0-1]\d|\d\<close>,
  \<^verbatim>\<open>%M  [0-5]\d|\d\<close> and
  \<^verbatim>\<open>%S  6[0-1]|[0-5]\d|\d\<close>.
  The matcher below is a backtracking one: it lists the ways a pattern matches a prefix
  of the string in the order Python's \<^verbatim>\<open>re\<close> tries them, and \<^verbatim>\<open>re.match\<close> takes the first.
  A class such as \<^verbatim>\<open>[0-2]\<close> holds the ASCII characters it names; \<^verbatim>\<open>\d\<close> is any Unicode
  decimal digit, and \<^verbatim>\<open>int\<close> reads such a digit by its value.
\<close>

definition decimal_value :: "env \<Rightarrow> nat \<Rightarrow> nat option" where
  "decimal_value env c =
     (if c < 128 then (if 48 \<le> c \<and> c \<le> 57 then Some (c - 48) else None)
      else unicode_decimal env c)"

datatype rx = Cls string | Dec | Seq rx rx | Alt rx rx

fun rx_match :: "env \<Rightarrow> rx \<Rightarrow> pystr \<Rightarrow> (pystr \<times> pystr) list" where
  "rx_match env (Cls cs) s =
     (case s of [] \<Rightarrow> [] | c # rest \<Rightarrow> if c \<in> set (ustr cs) then [([c], rest)] else [])"
| "rx_match env Dec s =
     (case s of [] \<Rightarrow> []
      | c # rest \<Rightarrow> if decimal_value env c \<noteq> None then [([c], rest)] else [])"
| "rx_match env (Seq a b) s =
     concat (map (\<lambda>m1. map (\<lambda>m2. (fst m1 @ fst m2, snd m2)) (rx_match env b (snd m1)))
               (rx_match env a s))"
| "rx_match env (Alt a b) s = rx_match env a s @ rx_match env b s"

datatype item = Group rx | Lit char

text \<open>Under \<^verbatim>\<open>re.IGNORECASE\<close> a literal matches a character with the same lower case. The
  literals of the format are \<^verbatim>\<open>-\<close>, \<^verbatim>\<open>:\<close>, \<^verbatim>\<open>T\<close> and \<^verbatim>\<open>Z\<close>, and no character outside ASCII
  has the lower case of one of them, so the lower case of ASCII is enough.\<close>

definition ascii_lower :: "nat \<Rightarrow> nat" where
  "ascii_lower c = (if 65 \<le> c \<and> c \<le> 90 then c + 32 else c)"

fun pat_match :: "env \<Rightarrow> item list \<Rightarrow> pystr \<Rightarrow> (pystr list \<times> pystr) list" where
  "pat_match env [] s = [([], s)]"
| "pat_match env (Lit c # p) s =
     (case s of [] \<Rightarrow> []
      | x # rest \<Rightarrow>
          if ascii_lower x = ascii_lower (of_char c) then pat_match env p rest else [])"
| "pat_match env (Group r # p) s =
     concat (map (\<lambda>m. map (\<lambda>gs. (fst m # fst gs, snd gs)) (pat_match env p (snd m)))
               (rx_match env r s))"

definition re_Y :: rx where
  "re_Y = Seq Dec (Seq Dec (Seq Dec Dec))"

definition re_m :: rx where
  "re_m = Alt (Seq (Cls ''1'') (Cls ''012''))
            (Alt (Seq (Cls ''0'') (Cls ''123456789'')) (Cls ''123456789''))"

definition re_d :: rx where
  "re_d = Alt (Seq (Cls ''3'') (Cls ''01''))
            (Alt (Seq (Cls ''12'') Dec)
              (Alt (Seq (Cls ''0'') (Cls ''123456789''))
                (Alt (Cls ''123456789'') (Seq (Cls '' '') (Cls ''123456789'')))))"

definition re_H :: rx where
  "re_H = Alt (Seq (Cls ''2'') (Cls ''0123'')) (Alt (Seq (Cls ''01'') Dec) Dec)"

definition re_M :: rx where
  "re_M = Alt (Seq (Cls ''012345'') Dec) Dec"

definition re_S :: rx where
  "re_S = Alt (Seq (Cls ''6'') (Cls ''01'')) (Alt (Seq (Cls ''012345'') Dec) Dec)"

definition format_regex :: "item list" where
  "format_regex =
     [Group re_Y, Lit CHR ''-'', Group re_m, Lit CHR ''-'', Group re_d, Lit CHR ''T'',
      Group re_H, Lit CHR '':'', Group re_M, Lit CHR '':'', Group re_S, Lit CHR ''Z'']"

text \<open>\<^verbatim>\<open>int(s)\<close> on a matched group: blanks around the digits are dropped, and each digit
  counts by its decimal value.\<close>

definition py_int :: "env \<Rightarrow> pystr \<Rightarrow> int" where
  "py_int env s =
     foldl (\<lambda>a c. 10 * a + (case decimal_value env c of None \<Rightarrow> 0 | Some v \<Rightarrow> int v)) 0
       (filter (\<lambda>c. c \<noteq> 32) s)"

text \<open>The matched fields go through the constructors of \<^verbatim>\<open>date\<close> and \<^verbatim>\<open>datetime\<close>, which
  refuse the year 0, a day the month does not have and the seconds 60 and 61; every
  failure is a \<^verbatim>\<open>ValueError\<close>. The result is naive.\<close>

definition strptime :: "env \<Rightarrow> pystr \<Rightarrow> py_error + datetime" where
  "strptime env s =
     (case pat_match env format_regex s of
        [] \<Rightarrow> Inl ValueError
      | found # _ \<Rightarrow>
          if snd found \<noteq> [] then Inl ValueError
          else (case fst found of
                  [Y, m, d, H, M, S] \<Rightarrow>
                    (case mk_datetime (py_int env Y) (py_int env m) (py_int env d)
                            (py_int env H) (py_int env M) (py_int env S) 0 None of
                       None \<Rightarrow> Inl ValueError
                     | Some dt \<Rightarrow> Inr dt)
                | _ \<Rightarrow> Inl ValueError))"

text \<open>Line 81: \<^verbatim>\<open>datetime.strptime(time, "%Y-%m-%dT%H:%M:%SZ").replace(tzinfo=timezone.utc)\<close>.
  \<^verbatim>\<open>strptime\<close> takes a \<^verbatim>\<open>str\<close> only.\<close>

fun to_utc_iso8601 :: "env \<Rightarrow> json \<Rightarrow> py_error + datetime" where
  "to_utc_iso8601 env (JStr s) =
     bind (strptime env s) (\<lambda>dt. Inr (dt\<lparr>dt_tzinfo := Some UTC\<rparr>))"
| "to_utc_iso8601 env _ = Inl TypeError"

text \<open>Line 117: \<^verbatim>\<open>datetime.fromtimestamp(obj["soPgenGraph"]["timestamp"], tz=timezone.utc)\<close>.\<close>

definition to_utc_epoch :: "env \<Rightarrow> json \<Rightarrow> py_error + datetime" where
  "to_utc_epoch env v = fromtimestamp_utc env v"

section \<open>The constants of the module\<close>

text \<open>\<^verbatim>\<open>set(range(1, 14))\<close>, by the list of its members.\<close>

definition NZ_PRICE_REGIONS :: "int list" where
  "NZ_PRICE_REGIONS = [1..13]"

definition PRODUCTION_URL :: string where
  "PRODUCTION_URL =
     ''https://www.transpower.co.nz/system-operator/live-system-and-market-data/consolidated-live-data''"

definition PRICE_URL :: string where
  "PRICE_URL = ''https://api.em6.co.nz/ords/em6/data_api/region/price/''"

text \<open>The debugging controls. \<^verbatim>\<open>save_outputs\<close> is off, so the writes of the mock files are
  not modelled; \<^verbatim>\<open>print_arrow_comparison\<close> is on, and its blocks print (not modelled) and
  call \<^verbatim>\<open>arrow\<close>, which can raise.\<close>

definition print_arrow_comparison :: bool where
  "print_arrow_comparison = True"

definition response_json :: "env \<Rightarrow> pystr \<Rightarrow> py_error + json" where
  "response_json env text =
     (case json_loads env text of None \<Rightarrow> Inl JSONDecodeError | Some obj \<Rightarrow> Inr obj)"

section \<open>\<^verbatim>\<open>fetch\<close>: the JSON embedded in the page\<close>

text \<open>\<^verbatim>\<open>item.attrs.get("data-drupal-selector")\<close> as a condition: the attribute is there and
  its value is not the empty string.\<close>

definition has_selector :: "tag \<Rightarrow> bool" where
  "has_selector item =
     (case map_of (tag_attrs item) (ustr ''data-drupal-selector'') of
        None \<Rightarrow> False
      | Some v \<Rightarrow> v \<noteq> [])"

text \<open>The body of the loop on a matching element: \<^verbatim>\<open>json.loads(item.contents[0])\<close>.\<close>

definition script_json :: "env \<Rightarrow> tag \<Rightarrow> py_error + json" where
  "script_json env item =
     (case tag_contents item of
        [] \<Rightarrow> Inl IndexError
      | body # _ \<Rightarrow>
          (case json_loads env body of None \<Rightarrow> Inl JSONDecodeError | Some v \<Rightarrow> Inr v))"

text \<open>The loop of lines 36 to 39; \<open>obj\<close> is \<open>None\<close> while the variable is unbound.\<close>

fun fetch_loop :: "env \<Rightarrow> tag list \<Rightarrow> json option \<Rightarrow> py_error + json option" where
  "fetch_loop env [] obj = Inr obj"
| "fetch_loop env (item # rest) obj =
     (if has_selector item
      then (case script_json env item of
              Inl e \<Rightarrow> Inl e
            | Inr v \<Rightarrow> fetch_loop env rest (Some v))
      else fetch_loop env rest obj)"

text \<open>\<^verbatim>\<open>fetch\<close> returns its result and the URLs it has requested.\<close>

definition fetch :: "env \<Rightarrow> (py_error + json) \<times> string list" where
  "fetch env =
     (bind (http_get env PRODUCTION_URL) (\<lambda>text.
      bind (fetch_loop env (find_all_script env text) None) (\<lambda>obj.
        case obj of None \<Rightarrow> Inl UnboundLocalError | Some v \<Rightarrow> Inr v)),
      [PRODUCTION_URL])"

section \<open>\<^verbatim>\<open>fetch_price\<close>\<close>

record price_record =
  pr_datetime :: datetime
  pr_price :: pyfloat
  pr_currency :: string
  pr_source :: string
  pr_zoneKey :: string

text \<open>\<^verbatim>\<open>float(v)\<close>.\<close>

fun py_float :: "env \<Rightarrow> json \<Rightarrow> py_error + pyfloat" where
  "py_float env (JStr s) = (case float_str env s of None \<Rightarrow> Inl ValueError | Some x \<Rightarrow> Inr x)"
| "py_float env (JInt i) = (case float_int env i of None \<Rightarrow> Inl OverflowError | Some x \<Rightarrow> Inr x)"
| "py_float env (JFloat x) = Inr x"
| "py_float env (JBool b) = Inr (Finite (if b then 1 else 0))"
| "py_float env _ = Inl TypeError"

text \<open>\<^verbatim>\<open>item.get("grid_zone_id") in regions\<close>.\<close>

definition in_regions :: "json \<Rightarrow> py_error + bool" where
  "in_regions item = bind (py_get item ''grid_zone_id'') (\<lambda>region. py_in region NZ_PRICE_REGIONS)"

text \<open>\<^verbatim>\<open>float(item.get("price"))\<close>.\<close>

definition sample_price :: "env \<Rightarrow> json \<Rightarrow> py_error + pyfloat" where
  "sample_price env item = bind (py_get item ''price'') (py_float env)"

text \<open>The loop of lines 72 to 77. The state is \<^verbatim>\<open>region_prices\<close> and \<^verbatim>\<open>time\<close>, which is
  \<open>None\<close> while the variable is unbound.\<close>

fun price_loop ::
  "env \<Rightarrow> json list \<Rightarrow> pyfloat list \<times> json option \<Rightarrow> py_error + pyfloat list \<times> json option" where
  "price_loop env [] st = Inr st"
| "price_loop env (item # rest) st =
     (case in_regions item of
        Inl e \<Rightarrow> Inl e
      | Inr valid \<Rightarrow>
          if valid
          then (case py_get item ''timestamp'' of
                  Inl e \<Rightarrow> Inl e
                | Inr time \<Rightarrow>
                    (case sample_price env item of
                       Inl e \<Rightarrow> Inl e
                     | Inr price \<Rightarrow> price_loop env rest (fst st @ [price], Some time)))
          else price_loop env rest st)"

text \<open>What the loop iterates over: \<^verbatim>\<open>obj.get("items")\<close>.\<close>

definition payload_items :: "json \<Rightarrow> py_error + json list" where
  "payload_items obj = bind (py_get obj ''items'') py_iter"

text \<open>Line 79: \<^verbatim>\<open>sum(region_prices) / len(region_prices)\<close>. The sum of the empty list is
  the int 0, and 0 / 0 raises; otherwise the sum and the quotient are the library's, in
  double arithmetic.\<close>

definition average :: "env \<Rightarrow> pyfloat list \<Rightarrow> py_error + pyfloat" where
  "average env region_prices =
     (if length region_prices = 0 then Inl ZeroDivisionError
      else Inr (float_truediv env (float_sum env region_prices) (int (length region_prices))))"

text \<open>Lines 68 to 99, on the decoded body \<open>obj\<close>.\<close>

definition normalize_price :: "env \<Rightarrow> string \<Rightarrow> json \<Rightarrow> py_error + price_record" where
  "normalize_price env zone_key obj =
     bind (payload_items obj) (\<lambda>items.
     bind (price_loop env items ([], None)) (\<lambda>st.
     bind (average env (fst st)) (\<lambda>avg_price.
       case snd st of
         None \<Rightarrow> Inl UnboundLocalError
       | Some time \<Rightarrow>
           bind (to_utc_iso8601 env time) (\<lambda>date_time.
             if print_arrow_comparison \<and> \<not> arrow_get env time then Inl ParserError
             else Inr \<lparr>pr_datetime = date_time, pr_price = avg_price,
                        pr_currency = ''NZD'', pr_source = ''api.em6.co.nz'',
                        pr_zoneKey = zone_key\<rparr>))))"

text \<open>\<^verbatim>\<open>fetch_price\<close> returns its result and the URLs it has requested. A \<^verbatim>\<open>datetime\<close> is
  always true as a condition.\<close>

definition fetch_price ::
  "env \<Rightarrow> string \<Rightarrow> datetime option \<Rightarrow> (py_error + price_record) \<times> string list" where
  "fetch_price env zone_key target_datetime =
     (case target_datetime of
        Some _ \<Rightarrow> (Inl NotImplementedError, [])
      | None \<Rightarrow>
          (bind (http_get env PRICE_URL) (\<lambda>text.
           bind (response_json env text) (normalize_price env zone_key)),
           [PRICE_URL]))"

section \<open>\<^verbatim>\<open>fetch_production\<close>\<close>

record production_record =
  pn_zoneKey :: string
  pn_datetime :: datetime
  pn_production :: "(string \<times> json) list"
  pn_capacity :: "(string \<times> json) list"
  pn_storage :: "(string \<times> json) list"
  pn_source :: string

text \<open>One entry of the output: \<^verbatim>\<open>productions.get(name, {field: None})[field]\<close>.\<close>

definition category_value :: "json \<Rightarrow> string \<Rightarrow> string \<Rightarrow> py_error + json" where
  "category_value productions name field =
     bind (py_get_default productions name (JObj [(ustr field, JNull)]))
       (\<lambda>c. py_subscript c field)"

text \<open>The entries of a dictionary display that read the payload, evaluated in order: each
  is an output key and the provider's category it reads.\<close>

fun category_entries ::
  "json \<Rightarrow> string \<Rightarrow> (string \<times> string) list \<Rightarrow> py_error + (string \<times> json) list" where
  "category_entries productions field [] = Inr []"
| "category_entries productions field (kn # rest) =
     (case category_value productions (snd kn) field of
        Inl e \<Rightarrow> Inl e
      | Inr v \<Rightarrow>
          (case category_entries productions field rest of
             Inl e \<Rightarrow> Inl e
           | Inr vs \<Rightarrow> Inr ((fst kn, v) # vs)))"

text \<open>Line 129: \<^verbatim>\<open>productions = obj["soPgenGraph"]["data"][region_key]\<close>.\<close>

definition region_key :: string where
  "region_key = ''New Zealand''"

definition region_productions :: "json \<Rightarrow> py_error + json" where
  "region_productions obj =
     bind (py_subscript obj ''soPgenGraph'') (\<lambda>graph.
     bind (py_subscript graph ''data'') (\<lambda>data.
       py_subscript data region_key))"

text \<open>The entries of the three dictionary displays of lines 134 to 163 that read the
  payload, in the order they are written.\<close>

definition production_categories :: "(string \<times> string) list" where
  "production_categories =
     [(''coal'', ''Coal''), (''oil'', ''Diesel/Oil''), (''gas'', ''Gas''),
      (''geothermal'', ''Geothermal''), (''wind'', ''Wind''), (''hydro'', ''Hydro''),
      (''solar'', ''Solar''), (''unknown'', ''Co-Gen'')]"

definition capacity_categories :: "(string \<times> string) list" where
  "capacity_categories =
     [(''coal'', ''Coal''), (''oil'', ''Diesel/Oil''), (''gas'', ''Gas''),
      (''geothermal'', ''Geothermal''), (''wind'', ''Wind''), (''hydro'', ''Hydro''),
      (''solar'', ''Solar''), (''battery storage'', ''Battery''), (''unknown'', ''Co-Gen'')]"

definition storage_categories :: "(string \<times> string) list" where
  "storage_categories = [(''battery'', ''Battery'')]"

text \<open>Lines 117 to 167, on the object \<open>obj\<close> that \<^verbatim>\<open>fetch\<close> returned.\<close>

definition normalize_production :: "env \<Rightarrow> string \<Rightarrow> json \<Rightarrow> py_error + production_record" where
  "normalize_production env zone_key obj =
     bind (py_subscript obj ''soPgenGraph'') (\<lambda>graph.
     bind (py_subscript graph ''timestamp'') (\<lambda>timestamp.
     bind (to_utc_epoch env timestamp) (\<lambda>date_time.
       if print_arrow_comparison \<and> \<not> arrow_get_X env timestamp then Inl ParserError
       else
         bind (region_productions obj) (\<lambda>productions.
         bind (category_entries productions ''generation'' production_categories) (\<lambda>production.
         bind (category_entries productions ''capacity'' capacity_categories) (\<lambda>capacity.
         bind (category_entries productions ''generation'' storage_categories) (\<lambda>storage.
           Inr \<lparr>pn_zoneKey = zone_key, pn_datetime = date_time,
                 pn_production = production @ [(''nuclear'', JInt 0)],
                 pn_capacity = capacity @ [(''nuclear'', JInt 0)],
                 pn_storage = storage,
                 pn_source = ''transpower.co.nz''\<rparr>)))))))"

definition fetch_production ::
  "env \<Rightarrow> string \<Rightarrow> datetime option \<Rightarrow> (py_error + production_record) \<times> string list" where
  "fetch_production env zone_key target_datetime =
     (case target_datetime of
        Some _ \<Rightarrow> (Inl NotImplementedError, [])
      | None \<Rightarrow>
          (let r = fetch env in (bind (fst r) (normalize_production env zone_key), snd r)))"

section \<open>Notions of the specification\<close>

text \<open>The samples that count: those whose region is one of the price regions.\<close>

definition valid_samples :: "json list \<Rightarrow> json list" where
  "valid_samples items = filter (\<lambda>item. in_regions item = Inr True) items"


text \<open>The script elements \<^verbatim>\<open>fetch\<close> reads.\<close>

definition selected_scripts :: "tag list \<Rightarrow> tag list" where
  "selected_scripts tags = filter has_selector tags"

text \<open>The decimal digits: ASCII \<^verbatim>\<open>0\<close> to \<^verbatim>\<open>9\<close> and the other characters of category Nd.\<close>

definition decimal_digits :: "env \<Rightarrow> nat set" where
  "decimal_digits env = {c. decimal_value env c \<noteq> None}"

text \<open>The characters a pattern can match, and the least and the greatest length of what
  it matches.\<close>

fun rx_chars :: "env \<Rightarrow> rx \<Rightarrow> nat set" where
  "rx_chars env (Cls cs) = set (ustr cs)"
| "rx_chars env Dec = decimal_digits env"
| "rx_chars env (Seq a b) = rx_chars env a \<union> rx_chars env b"
| "rx_chars env (Alt a b) = rx_chars env a \<union> rx_chars env b"

fun rx_min :: "rx \<Rightarrow> nat" where
  "rx_min (Cls cs) = 1"
| "rx_min Dec = 1"
| "rx_min (Seq a b) = rx_min a + rx_min b"
| "rx_min (Alt a b) = min (rx_min a) (rx_min b)"

fun rx_max :: "rx \<Rightarrow> nat" where
  "rx_max (Cls cs) = 1"
| "rx_max Dec = 1"
| "rx_max (Seq a b) = rx_max a + rx_max b"
| "rx_max (Alt a b) = max (rx_max a) (rx_max b)"

section \<open>Example runs\<close>

text \<open>
  The collaborators of the example runs. The sums and quotients the examples need
  (50 + 60, 110 / 2, 1 + 2 + 2) are exact in double arithmetic, so the library's \<^verbatim>\<open>sum\<close>
  and \<^verbatim>\<open>/\<close> give there what exact arithmetic gives, with one exception: 5 / 3 is not a
  double, and \<^verbatim>\<open>5.0 / 3\<close> is the double 7505999378950827 / 2^52, printed
  1.6666666666666667.
\<close>

definition finite_value :: "pyfloat \<Rightarrow> real" where
  "finite_value x = (case x of Finite r \<Rightarrow> r | _ \<Rightarrow> 0)"

definition example_sum :: "pyfloat list \<Rightarrow> pyfloat" where
  "example_sum xs = Finite (sum_list (map finite_value xs))"

definition example_truediv :: "pyfloat \<Rightarrow> int \<Rightarrow> pyfloat" where
  "example_truediv x n =
     (if x = Finite 5 \<and> n = 3 then Finite (7505999378950827 / 4503599627370496)
      else Finite (finite_value x / of_int n))"

definition example_env :: env where
  "example_env =
     \<lparr>http_get = (\<lambda>url. Inr (ustr ''body'')),
      json_loads = (\<lambda>text. None),
      find_all_script = (\<lambda>text. []),
      float_str = map_of [(ustr ''50.0'', Finite 50), (ustr ''60.0'', Finite 60),
                          (ustr ''999.0'', Finite 999), (ustr ''1.0'', Finite 1),
                          (ustr ''2.0'', Finite 2)],
      float_int = (\<lambda>i. Some (Finite (of_int i))),
      float_sum = example_sum,
      float_truediv = example_truediv,
      float_timeval = (\<lambda>x. Inl ValueError),
      unicode_decimal = (\<lambda>c. None),
      arrow_get = (\<lambda>v. True),
      arrow_get_X = (\<lambda>v. True)\<rparr>"

definition sample :: "int \<Rightarrow> string \<Rightarrow> string \<Rightarrow> json" where
  "sample region time price =
     JObj [(ustr ''grid_zone_id'', JInt region), (ustr ''timestamp'', JStr (ustr time)),
           (ustr ''price'', JStr (ustr price))]"

text \<open>A price payload: two samples of region 1 and one of region 99, which is not a
  price region.\<close>

definition price_items :: "json list" where
  "price_items =
     [sample 1 ''2024-01-01T00:00:00Z'' ''50.0'',
      sample 1 ''2024-01-01T00:05:00Z'' ''60.0'',
      sample 99 ''2024-01-01T00:05:00Z'' ''999.0'']"

definition price_env :: env where
  "price_env =
     example_env\<lparr>json_loads := (\<lambda>text. Some (JObj [(ustr ''items'', JArr price_items)]))\<rparr>"

definition price_result :: price_record where
  "price_result =
     \<lparr>pr_datetime = \<lparr>dt_year = 2024, dt_month = 1, dt_day = 1, dt_hour = 0, dt_minute = 5,
                      dt_second = 0, dt_microsecond = 0, dt_tzinfo = Some UTC\<rparr>,
      pr_price = Finite 55, pr_currency = ''NZD'', pr_source = ''api.em6.co.nz'',
      pr_zoneKey = ''NZ''\<rparr>"

text \<open>A price payload whose samples are not in the order of their times, and whose last
  sample is not of a price region.\<close>

definition late_items :: "json list" where
  "late_items =
     [sample 7 ''2023-12-31T23:55:09Z'' ''60.0'',
      sample 2 ''2023-06-15T08:30:00Z'' ''50.0'',
      sample 0 ''2024-02-29T12:00:00Z'' ''999.0'']"

definition late_env :: env where
  "late_env =
     example_env\<lparr>json_loads := (\<lambda>text. Some (JObj [(ustr ''items'', JArr late_items)]))\<rparr>"

definition late_result :: price_record where
  "late_result =
     \<lparr>pr_datetime = \<lparr>dt_year = 2023, dt_month = 6, dt_day = 15, dt_hour = 8, dt_minute = 30,
                      dt_second = 0, dt_microsecond = 0, dt_tzinfo = Some UTC\<rparr>,
      pr_price = Finite 55, pr_currency = ''NZD'', pr_source = ''api.em6.co.nz'',
      pr_zoneKey = ''NZ''\<rparr>"




text \<open>A price payload whose only sample is of region 99.\<close>

definition no_price_env :: env where
  "no_price_env =
     example_env\<lparr>json_loads := (\<lambda>text. Some (JObj [(ustr ''items'', JArr [price_items ! 2])]))\<rparr>"

text \<open>A production page with one marked script element; the region has the category
  Hydro only.\<close>

definition hydro_only :: "(pystr \<times> json) list" where
  "hydro_only =
     [(ustr ''Hydro'', JObj [(ustr ''generation'', JInt 1200), (ustr ''capacity'', JInt 1500)])]"

definition production_payload :: json where
  "production_payload =
     JObj [(ustr ''soPgenGraph'',
            JObj [(ustr ''timestamp'', JInt 1704067200),
                  (ustr ''data'', JObj [(ustr ''New Zealand'', JObj hydro_only)])])]"

definition script :: "string \<Rightarrow> string \<Rightarrow> tag" where
  "script selector body =
     \<lparr>tag_attrs = [(ustr ''data-drupal-selector'', ustr selector)],
      tag_contents = [ustr body]\<rparr>"

definition plain_script :: "string \<Rightarrow> tag" where
  "plain_script body = \<lparr>tag_attrs = [(ustr ''type'', ustr ''text/javascript'')],
                         tag_contents = [ustr body]\<rparr>"

definition production_env :: env where
  "production_env =
     example_env\<lparr>http_get := (\<lambda>url. Inr (ustr ''page'')),
                 json_loads := (\<lambda>text. Some production_payload),
                 find_all_script := (\<lambda>text. [script ''drupal-settings-json'' ''settings''])\<rparr>"

definition production_result :: production_record where
  "production_result =
     \<lparr>pn_zoneKey = ''NZ'',
      pn_datetime = \<lparr>dt_year = 2024, dt_month = 1, dt_day = 1, dt_hour = 0, dt_minute = 0,
                      dt_second = 0, dt_microsecond = 0, dt_tzinfo = Some UTC\<rparr>,
      pn_production =
        [(''coal'', JNull), (''oil'', JNull), (''gas'', JNull), (''geothermal'', JNull),
         (''wind'', JNull), (''hydro'', JInt 1200), (''solar'', JNull), (''unknown'', JNull),
         (''nuclear'', JInt 0)],
      pn_capacity =
        [(''coal'', JNull), (''oil'', JNull), (''gas'', JNull), (''geothermal'', JNull),
         (''wind'', JNull), (''hydro'', JInt 1500), (''solar'', JNull),
         (''battery storage'', JNull), (''unknown'', JNull), (''nuclear'', JInt 0)],
      pn_storage = [(''battery'', JNull)],
      pn_source = ''transpower.co.nz''\<rparr>"

text \<open>The texts of the script elements of the pages below are the JSON numbers 1, 2
  and 3.\<close>

definition number_loads :: "pystr \<Rightarrow> json option" where
  "number_loads = map_of [(ustr ''1'', JInt 1), (ustr ''2'', JInt 2), (ustr ''3'', JInt 3)]"

text \<open>A page with two script elements: the first has a marker with a value, the second
  a marker with the empty value.\<close>

definition marker_tags :: "tag list" where
  "marker_tags = [script ''drupal-settings-json'' ''1'', script [] ''2'']"

definition marker_env :: env where
  "marker_env =
     example_env\<lparr>http_get := (\<lambda>url. Inr (ustr ''page'')),
                 json_loads := number_loads,
                 find_all_script := (\<lambda>text. marker_tags)\<rparr>"

text \<open>A page with four script elements, of which the first and the third have a marker
  with a value.\<close>

definition several_tags :: "tag list" where
  "several_tags =
     [script ''first'' ''1'', plain_script ''3'', script ''second'' ''2'', plain_script ''1'']"

definition several_env :: env where
  "several_env = marker_env\<lparr>find_all_script := (\<lambda>text. several_tags)\<rparr>"

text \<open>A page with two script elements, neither with a marker that has a value.\<close>

definition unmarked_tags :: "tag list" where
  "unmarked_tags = [plain_script ''1'', script [] ''2'']"

definition unmarked_env :: env where
  "unmarked_env = marker_env\<lparr>find_all_script := (\<lambda>text. unmarked_tags)\<rparr>"

text \<open>A Unicode database that knows the fullwidth digits U+FF10 to U+FF19, and a timestamp
  whose year is written with them.\<close>

definition fullwidth_env :: env where
  "fullwidth_env =
     example_env\<lparr>unicode_decimal :=
       (\<lambda>c. if 65296 \<le> c \<and> c \<le> 65305 then Some (c - 65296) else None)\<rparr>"

definition fullwidth_time :: pystr where
  "fullwidth_time = [65298, 65296, 65298, 65300] @ ustr ''-01-01T00:00:00Z''"

section \<open>The example runs, evaluated\<close>

lemma fetch_production_example:
  "fetch_production production_env ''NZ'' None = (Inr production_result, [PRODUCTION_URL])"
  by code_simp

lemma fetch_example: "fst (fetch production_env) = Inr production_payload"
  by code_simp

lemma region_productions_example: "region_productions production_payload = Inr (JObj hydro_only)"
  by code_simp

lemma fetch_price_example:
  "fetch_price price_env ''NZ'' None = (Inr price_result, [PRICE_URL])"
  by code_simp

lemma fetch_price_late_example:
  "fetch_price late_env ''NZ'' None = (Inr late_result, [PRICE_URL])"
  by code_simp

section \<open>Requests for past dates\<close>

text \<open>
  Claim C9. Called with a \<^verbatim>\<open>target_datetime\<close>, \<^verbatim>\<open>fetch_price\<close> and \<^verbatim>\<open>fetch_production\<close> both
  fail with \<^verbatim>\<open>NotImplementedError\<close>, the exception the code keeps for this one case (the
  specification calls it UnsupportedOperationError), whatever the collaborators would
  answer, and they have requested no URL: the check is the first statement of each.
\<close>

theorem historical_request_fails:
  "fetch_price env zone_key (Some t) = (Inl NotImplementedError, [])
   \<and> fetch_production env zone_key (Some t) = (Inl NotImplementedError, [])"
  by (simp add: fetch_price_def fetch_production_def)

section \<open>The two timestamp variants\<close>

text \<open>
  Claim C6. The ISO variant on \<^verbatim>\<open>"2024-01-01T00:00:00Z"\<close> and the epoch variant on
  \<^verbatim>\<open>1704067200\<close> give the same aware \<^verbatim>\<open>datetime\<close>, midnight of 1 January 2024 in UTC, whose
  instant is 1704067200 seconds after the epoch.
\<close>

theorem iso_and_epoch_same_instant:
  "to_utc_iso8601 env (JStr (ustr ''2024-01-01T00:00:00Z'')) = to_utc_epoch env (JInt 1704067200)
   \<and> to_utc_epoch env (JInt 1704067200) =
       Inr \<lparr>dt_year = 2024, dt_month = 1, dt_day = 1, dt_hour = 0, dt_minute = 0,
             dt_second = 0, dt_microsecond = 0, dt_tzinfo = Some UTC\<rparr>
   \<and> utc_micros \<lparr>dt_year = 2024, dt_month = 1, dt_day = 1, dt_hour = 0, dt_minute = 0,
             dt_second = 0, dt_microsecond = 0, dt_tzinfo = Some UTC\<rparr> = 1704067200 * 1000000"
  by code_simp

section \<open>The production record\<close>

lemma category_entries_keys:
  "category_entries productions field table = Inr vs \<Longrightarrow> map fst vs = map fst table"
  by (induction table arbitrary: vs) (auto split: sum.splits)

lemma category_entries_lookup:
  "category_entries productions field table = Inr vs \<Longrightarrow> distinct (map fst table) \<Longrightarrow>
   (out, name) \<in> set table \<Longrightarrow>
   \<exists>v. category_value productions name field = Inr v \<and> map_of vs out = Some v"
proof (induction table arbitrary: vs)
  case Nil
  then show ?case by simp
next
  case (Cons kn rest)
  from Cons.prems(1) obtain v vs' where
    v: "category_value productions (snd kn) field = Inr v" and
    vs': "category_entries productions field rest = Inr vs'" and
    vs: "vs = (fst kn, v) # vs'"
    by (auto split: sum.splits)
  show ?case
  proof (cases "(out, name) = kn")
    case True
    with v vs show ?thesis by auto
  next
    case False
    with Cons.prems(3) have mem: "(out, name) \<in> set rest" by auto
    then have "out \<in> fst ` set rest" by force
    with Cons.prems(2) have "fst kn \<noteq> out" by auto
    moreover from Cons.IH [OF vs' _ mem] Cons.prems(2)
    obtain w where "category_value productions name field = Inr w" "map_of vs' out = Some w"
      by auto
    ultimately show ?thesis using vs by auto
  qed
qed

lemma category_value_absent:
  "map_of categories (ustr name) = None \<Longrightarrow>
   category_value (JObj categories) name field = Inr JNull"
  by (simp add: category_value_def bind_def)

lemma normalize_production_Inr:
  assumes "normalize_production env zone_key obj = Inr r"
  shows "\<exists>productions production capacity storage.
           region_productions obj = Inr productions
           \<and> category_entries productions ''generation'' production_categories = Inr production
           \<and> category_entries productions ''capacity'' capacity_categories = Inr capacity
           \<and> category_entries productions ''generation'' storage_categories = Inr storage
           \<and> pn_production r = production @ [(''nuclear'', JInt 0)]
           \<and> pn_capacity r = capacity @ [(''nuclear'', JInt 0)]
           \<and> pn_storage r = storage"
  using assms unfolding normalize_production_def bind_def
  by (auto split: sum.splits if_splits)

lemma fetch_production_Inr:
  assumes "fst (fetch_production env zone_key target_datetime) = Inr r"
  shows "\<exists>obj. target_datetime = None \<and> fst (fetch env) = Inr obj 
      \<and> normalize_production env zone_key obj = Inr r"
  using assms unfolding fetch_production_def bind_def
  by (auto split: option.splits sum.splits simp: Let_def)

lemma distinct_categories:
  "distinct (map fst production_categories)" "distinct (map fst capacity_categories)"
  "distinct (map fst storage_categories)"
  by (simp_all add: production_categories_def capacity_categories_def storage_categories_def)

text \<open>
  Claim C3. When \<^verbatim>\<open>fetch_production\<close> returns a record and the provider's category \<open>name\<close>
  is not a key of the region's mapping, every output key that reads \<open>name\<close> is present in
  the record with the value \<^verbatim>\<open>None\<close> (not 0): in \<^verbatim>\<open>production\<close>, in \<^verbatim>\<open>capacity\<close> and in
  \<^verbatim>\<open>storage\<close>, each on its own.
\<close>

theorem missing_category_is_null:
  assumes run: "fst (fetch_production env zone_key target_datetime) = Inr r"
    and page: "fst (fetch env) = Inr obj"
    and region: "region_productions obj = Inr (JObj categories)"
    and absent: "map_of categories (ustr name) = None"
  shows "((out, name) \<in> set production_categories \<longrightarrow>
            map_of (pn_production r) out = Some JNull)
       \<and> ((out, name) \<in> set capacity_categories \<longrightarrow>
            map_of (pn_capacity r) out = Some JNull)
       \<and> ((out, name) \<in> set storage_categories \<longrightarrow>
            map_of (pn_storage r) out = Some JNull)"
proof -
  from fetch_production_Inr [OF run] page
  have "normalize_production env zone_key obj = Inr r" by auto
  from normalize_production_Inr [OF this] region
  obtain production capacity storage where
    p: "category_entries (JObj categories) ''generation'' production_categories = Inr production"
    and c: "category_entries (JObj categories) ''capacity'' capacity_categories = Inr capacity"
    and s: "category_entries (JObj categories) ''generation'' storage_categories = Inr storage"
    and r: "pn_production r = production @ [(''nuclear'', JInt 0)]"
           "pn_capacity r = capacity @ [(''nuclear'', JInt 0)]"
           "pn_storage r = storage"
    by auto
  have "map_of (pn_production r) out = Some JNull" if "(out, name) \<in> set production_categories"
    using category_entries_lookup [OF p distinct_categories(1) that]
          category_value_absent [OF absent] r
    by (auto simp: map_add_Some_iff)
  moreover
  have "map_of (pn_capacity r) out = Some JNull" if "(out, name) \<in> set capacity_categories"
    using category_entries_lookup [OF c distinct_categories(2) that]
          category_value_absent [OF absent] r
    by (auto simp: map_add_Some_iff)
  moreover
  have "map_of (pn_storage r) out = Some JNull" if "(out, name) \<in> set storage_categories"
    using category_entries_lookup [OF s distinct_categories(3) that]
          category_value_absent [OF absent] r
    by (auto simp: map_add_Some_iff)
  ultimately show ?thesis by blast
qed

lemma coal_absent: "map_of hydro_only (ustr ''Coal'') = None"
  by code_simp

theorem missing_category_is_null_witness:
  "fst (fetch_production production_env ''NZ'' None) = Inr production_result
   \<and> fst (fetch production_env) = Inr production_payload
   \<and> region_productions production_payload = Inr (JObj hydro_only)
   \<and> map_of hydro_only (ustr ''Coal'') = None
   \<and> (''coal'', ''Coal'') \<in> set production_categories
   \<and> (''coal'', ''Coal'') \<in> set capacity_categories
   \<and> map_of (pn_production production_result) ''coal'' = Some JNull
   \<and> map_of (pn_capacity production_result) ''coal'' = Some JNull"
proof -
  have run: "fst (fetch_production production_env ''NZ'' None) = Inr production_result"
    by (simp add: fetch_production_example)
  have mem: "(''coal'', ''Coal'') \<in> set production_categories"
    "(''coal'', ''Coal'') \<in> set capacity_categories"
    by (simp_all add: production_categories_def capacity_categories_def)
  from missing_category_is_null [OF run fetch_example region_productions_example coal_absent,
      of "''coal''"] mem run
  show ?thesis by (simp add: fetch_example region_productions_example coal_absent)
qed

text \<open>
  Claim C8. In every record \<^verbatim>\<open>fetch_production\<close> returns, the key \<^verbatim>\<open>nuclear\<close> has the value
  0 in \<^verbatim>\<open>production\<close> and in \<^verbatim>\<open>capacity\<close>, whatever the payload holds.
\<close>

theorem nuclear_is_zero:
  assumes "fst (fetch_production env zone_key target_datetime) = Inr r"
  shows "map_of (pn_production r) ''nuclear'' = Some (JInt 0)
       \<and> map_of (pn_capacity r) ''nuclear'' = Some (JInt 0)"
proof -
  from fetch_production_Inr [OF assms] obtain obj where
    "normalize_production env zone_key obj = Inr r" by auto
  from normalize_production_Inr [OF this]
  obtain productions production capacity where
    p: "category_entries productions ''generation'' production_categories = Inr production"
    and c: "category_entries productions ''capacity'' capacity_categories = Inr capacity"
    and r: "pn_production r = production @ [(''nuclear'', JInt 0)]"
           "pn_capacity r = capacity @ [(''nuclear'', JInt 0)]"
    by auto
  have "''nuclear'' \<notin> set (map fst production)"
    unfolding category_entries_keys [OF p] by (simp add: production_categories_def)
  then have "map_of production ''nuclear'' = None"
    by (simp add: map_of_eq_None_iff)
  moreover
  have "''nuclear'' \<notin> set (map fst capacity)"
    unfolding category_entries_keys [OF c] by (simp add: capacity_categories_def)
  then have "map_of capacity ''nuclear'' = None"
    by (simp add: map_of_eq_None_iff)
  ultimately show ?thesis using r by (simp add: map_add_Some_iff)
qed

theorem nuclear_is_zero_witness:
  "fst (fetch_production production_env ''NZ'' None) = Inr production_result
   \<and> map_of (pn_production production_result) ''nuclear'' = Some (JInt 0)
   \<and> map_of (pn_capacity production_result) ''nuclear'' = Some (JInt 0)"
proof -
  have run: "fst (fetch_production production_env ''NZ'' None) = Inr production_result"
    by (simp add: fetch_production_example)
  from nuclear_is_zero [OF run] run show ?thesis by simp
qed

text \<open>
  Claim C10. In every record \<^verbatim>\<open>fetch_production\<close> returns, the keys of \<^verbatim>\<open>production\<close>,
  \<^verbatim>\<open>capacity\<close> and \<^verbatim>\<open>storage\<close> are the fixed ones, in the order of the source, each once,
  whatever categories the payload holds.
\<close>

theorem output_keys_fixed:
  assumes "fst (fetch_production env zone_key target_datetime) = Inr r"
  shows "map fst (pn_production r) =
           [''coal'', ''oil'', ''gas'', ''geothermal'', ''wind'', ''hydro'', ''solar'',
            ''unknown'', ''nuclear'']
       \<and> map fst (pn_capacity r) =
           [''coal'', ''oil'', ''gas'', ''geothermal'', ''wind'', ''hydro'', ''solar'',
            ''battery storage'', ''unknown'', ''nuclear'']
       \<and> map fst (pn_storage r) = [''battery'']"
proof -
  from fetch_production_Inr [OF assms] obtain obj where
    "normalize_production env zone_key obj = Inr r" by auto
  from normalize_production_Inr [OF this]
  obtain productions production capacity storage where
    p: "category_entries productions ''generation'' production_categories = Inr production"
    and c: "category_entries productions ''capacity'' capacity_categories = Inr capacity"
    and s: "category_entries productions ''generation'' storage_categories = Inr storage"
    and r: "pn_production r = production @ [(''nuclear'', JInt 0)]"
           "pn_capacity r = capacity @ [(''nuclear'', JInt 0)]"
           "pn_storage r = storage"
    by auto
  show ?thesis
    using category_entries_keys [OF p] category_entries_keys [OF c]
      category_entries_keys [OF s] r
    by (simp add: production_categories_def capacity_categories_def storage_categories_def)
qed

theorem output_keys_fixed_witness:
  "fst (fetch_production production_env ''NZ'' None) = Inr production_result
   \<and> map fst (pn_production production_result) =
           [''coal'', ''oil'', ''gas'', ''geothermal'', ''wind'', ''hydro'', ''solar'',
            ''unknown'', ''nuclear'']
   \<and> map fst (pn_capacity production_result) =
           [''coal'', ''oil'', ''gas'', ''geothermal'', ''wind'', ''hydro'', ''solar'',
            ''battery storage'', ''unknown'', ''nuclear'']
   \<and> map fst (pn_storage production_result) = [''battery'']"
proof -
  have run: "fst (fetch_production production_env ''NZ'' None) = Inr production_result"
    by (simp add: fetch_production_example)
  from output_keys_fixed [OF run] run show ?thesis by simp
qed

section \<open>The strings the ISO variant accepts\<close>

lemma rx_match_field:
  "(m, rest) \<in> set (rx_match env r s) \<Longrightarrow>
     s = m @ rest \<and> set m \<subseteq> rx_chars env r \<and> rx_min r \<le> length m \<and> length m \<le> rx_max r"
proof (induction r arbitrary: s m rest)
  case (Cls cs)
  then show ?case by (cases s) (auto split: if_splits)
next
  case Dec
  then show ?case by (cases s) (auto simp: decimal_digits_def split: if_splits)
next
  case (Seq a b)
  from Seq.prems obtain m1 m2 where
    a: "m1 \<in> set (rx_match env a s)" and
    b: "m2 \<in> set (rx_match env b (snd m1))" and
    m: "m = fst m1 @ fst m2" "rest = snd m2"
    by auto
  from Seq.IH(1) [of "fst m1" "snd m1" s] a
  have 1: "s = fst m1 @ snd m1" "set (fst m1) \<subseteq> rx_chars env a"
    "rx_min a \<le> length (fst m1)" "length (fst m1) \<le> rx_max a"
    by simp_all
  from Seq.IH(2) [of "fst m2" "snd m2" "snd m1"] b
  have 2: "snd m1 = fst m2 @ snd m2" "set (fst m2) \<subseteq> rx_chars env b"
    "rx_min b \<le> length (fst m2)" "length (fst m2) \<le> rx_max b"
    by simp_all
  from 1 2 m show ?case by auto
next
  case (Alt a b)
  from Alt.prems
  have "(m, rest) \<in> set (rx_match env a s) \<or> (m, rest) \<in> set (rx_match env b s)"
    by simp
  then show ?case
  proof
    assume "(m, rest) \<in> set (rx_match env a s)"
    from Alt.IH(1) [OF this] show ?thesis by auto
  next
    assume "(m, rest) \<in> set (rx_match env b s)"
    from Alt.IH(2) [OF this] show ?thesis by auto
  qed
qed

lemma field_of_pattern:
  assumes "(m, rest) \<in> set (rx_match env r s)"
    and "rx_chars env r \<subseteq> cs" and "rx_min r = lo" and "rx_max r = hi"
  shows "s = m @ rest \<and> lo \<le> length m \<and> length m \<le> hi \<and> set m \<subseteq> cs"
proof -
  from rx_match_field [OF assms(1)]
  have a: "s = m @ rest" and b: "set m \<subseteq> rx_chars env r"
    and c: "rx_min r \<le> length m" and d: "length m \<le> rx_max r"
    by blast+
  from b assms(2) have "set m \<subseteq> cs" by (rule subset_trans)
  with a c d assms(3,4) show ?thesis by simp
qed

lemma ascii_digit: "c \<in> set (ustr ''0123456789'') \<Longrightarrow> c \<in> decimal_digits env"
  by (auto simp: ustr_def decimal_digits_def decimal_value_def)

lemma ascii_digits:
  assumes "set cs \<subseteq> set ''0123456789''"
  shows "set (ustr cs) \<subseteq> decimal_digits env"
proof -
  have "set (ustr cs) = (of_char :: char \<Rightarrow> nat) ` set cs"
    by (simp only: ustr_def set_map)
  also from assms have "\<dots> \<subseteq> of_char ` set ''0123456789''"
    by (rule image_mono)
  also have "\<dots> = set (ustr ''0123456789'')"
    by (simp only: ustr_def set_map)
  finally have "set (ustr cs) \<subseteq> set (ustr ''0123456789'')" .
  moreover have "set (ustr ''0123456789'') \<subseteq> decimal_digits env"
    by (rule subsetI, rule ascii_digit)
  ultimately show ?thesis by (rule subset_trans)
qed

lemma re_Y_field:
  assumes "(m, rest) \<in> set (rx_match env re_Y s)"
  shows "s = m @ rest \<and> 4 \<le> length m \<and> length m \<le> 4 \<and> set m \<subseteq> decimal_digits env"
  using assms
proof (rule field_of_pattern)
  show "rx_chars env re_Y \<subseteq> decimal_digits env" by (simp add: re_Y_def)
  show "rx_min re_Y = 4" by (simp add: re_Y_def)
  show "rx_max re_Y = 4" by (simp add: re_Y_def)
qed

lemma re_m_field:
  assumes "(m, rest) \<in> set (rx_match env re_m s)"
  shows "s = m @ rest \<and> 1 \<le> length m \<and> length m \<le> 2 \<and> set m \<subseteq> set (ustr ''0123456789'')"
  using assms
proof (rule field_of_pattern)
  show "rx_chars env re_m \<subseteq> set (ustr ''0123456789'')" by (simp add: re_m_def ustr_def)
  show "rx_min re_m = 1" by (simp add: re_m_def)
  show "rx_max re_m = 2" by (simp add: re_m_def)
qed

lemma re_d_field:
  assumes "(m, rest) \<in> set (rx_match env re_d s)"
  shows "s = m @ rest \<and> 1 \<le> length m \<and> length m \<le> 2
           \<and> set m \<subseteq> insert 32 (decimal_digits env)"
  using assms
proof (rule field_of_pattern)
  have "set (ustr ''3'') \<subseteq> decimal_digits env" "set (ustr ''01'') \<subseteq> decimal_digits env"
    "set (ustr ''12'') \<subseteq> decimal_digits env" "set (ustr ''0'') \<subseteq> decimal_digits env"
    "set (ustr ''123456789'') \<subseteq> decimal_digits env"
    by (rule ascii_digits, simp)+
  moreover have "set (ustr '' '') = {32}" by (simp add: ustr_def)
  ultimately show "rx_chars env re_d \<subseteq> insert 32 (decimal_digits env)"
    unfolding re_d_def rx_chars.simps by blast
  show "rx_min re_d = 1" by (simp add: re_d_def)
  show "rx_max re_d = 2" by (simp add: re_d_def)
qed

lemma re_H_field:
  assumes "(m, rest) \<in> set (rx_match env re_H s)"
  shows "s = m @ rest \<and> 1 \<le> length m \<and> length m \<le> 2 \<and> set m \<subseteq> decimal_digits env"
  using assms
proof (rule field_of_pattern)
  have "set (ustr ''2'') \<subseteq> decimal_digits env" "set (ustr ''0123'') \<subseteq> decimal_digits env"
    "set (ustr ''01'') \<subseteq> decimal_digits env"
    by (rule ascii_digits, simp)+
  then show "rx_chars env re_H \<subseteq> decimal_digits env"
    unfolding re_H_def rx_chars.simps by blast
  show "rx_min re_H = 1" by (simp add: re_H_def)
  show "rx_max re_H = 2" by (simp add: re_H_def)
qed

lemma re_M_field:
  assumes "(m, rest) \<in> set (rx_match env re_M s)"
  shows "s = m @ rest \<and> 1 \<le> length m \<and> length m \<le> 2 \<and> set m \<subseteq> decimal_digits env"
  using assms
proof (rule field_of_pattern)
  have "set (ustr ''012345'') \<subseteq> decimal_digits env"
    by (rule ascii_digits, simp)
  then show "rx_chars env re_M \<subseteq> decimal_digits env"
    unfolding re_M_def rx_chars.simps by blast
  show "rx_min re_M = 1" by (simp add: re_M_def)
  show "rx_max re_M = 2" by (simp add: re_M_def)
qed

lemma re_S_field:
  assumes "(m, rest) \<in> set (rx_match env re_S s)"
  shows "s = m @ rest \<and> 1 \<le> length m \<and> length m \<le> 2 \<and> set m \<subseteq> decimal_digits env"
  using assms
proof (rule field_of_pattern)
  have "set (ustr ''6'') \<subseteq> decimal_digits env" "set (ustr ''01'') \<subseteq> decimal_digits env"
    "set (ustr ''012345'') \<subseteq> decimal_digits env"
    by (rule ascii_digits, simp)+
  then show "rx_chars env re_S \<subseteq> decimal_digits env"
    unfolding re_S_def rx_chars.simps by blast
  show "rx_min re_S = 1" by (simp add: re_S_def)
  show "rx_max re_S = 2" by (simp add: re_S_def)
qed

lemma pat_match_Lit:
  assumes "(gs, rest) \<in> set (pat_match env (Lit c # p) s)"
  shows "\<exists>x r1. s = x # r1 \<and> ascii_lower x = ascii_lower (of_char c)
           \<and> (gs, rest) \<in> set (pat_match env p r1)"
proof (cases s)
  case Nil
  with assms show ?thesis by simp
next
  case (Cons x r1)
  with assms have "ascii_lower x = ascii_lower (of_char c)"
    "(gs, rest) \<in> set (pat_match env p r1)"
    by (simp_all split: if_splits)
  with Cons show ?thesis by blast
qed

lemma pat_match_Group:
  assumes "(gs, rest) \<in> set (pat_match env (Group r # p) s)"
  shows "\<exists>m r1 gs'. (m, r1) \<in> set (rx_match env r s) \<and> (gs', rest) \<in> set (pat_match env p r1)
        \<and> gs = m # gs'"
proof -
  from assms obtain m1 g1 where
    "m1 \<in> set (rx_match env r s)" "g1 \<in> set (pat_match env p (snd m1))"
    "gs = fst m1 # fst g1" "rest = snd g1"
    by auto
  then have "(fst m1, snd m1) \<in> set (rx_match env r s)
    \<and> (fst g1, rest) \<in> set (pat_match env p (snd m1)) \<and> gs = fst m1 # fst g1" by simp
  then show ?thesis by blast
qed

lemma ascii_lower_T: "ascii_lower x = ascii_lower (of_char CHR ''T'') \<Longrightarrow> x \<in> set (ustr ''Tt'')"
  by (auto simp: ascii_lower_def ustr_def split: if_splits)

lemma ascii_lower_Z: "ascii_lower x = ascii_lower (of_char CHR ''Z'') \<Longrightarrow> x \<in> set (ustr ''Zz'')"
  by (auto simp: ascii_lower_def ustr_def split: if_splits)

lemma ascii_lower_dash: "ascii_lower x = ascii_lower (of_char CHR ''-'') \<Longrightarrow> [x] = ustr ''-''"
  by (auto simp: ascii_lower_def ustr_def split: if_splits)

lemma ascii_lower_colon: "ascii_lower x = ascii_lower (of_char CHR '':'') \<Longrightarrow> [x] = ustr '':''"
  by (auto simp: ascii_lower_def ustr_def split: if_splits)

lemma format_regex_match:
  assumes "(gs, rest) \<in> set (pat_match env format_regex s)"
  shows "\<exists>Y m d H M S t z.
           s = Y @ ustr ''-'' @ m @ ustr ''-'' @ d @ [t] @ H @ ustr '':'' @ M @ ustr '':'' @ S
                 @ [z] @ rest
           \<and> gs = [Y, m, d, H, M, S]
           \<and> length Y = 4 \<and> set Y \<subseteq> decimal_digits env
           \<and> 1 \<le> length m \<and> length m \<le> 2 \<and> set m \<subseteq> set (ustr ''0123456789'')
           \<and> 1 \<le> length d \<and> length d \<le> 2 \<and> set d \<subseteq> insert 32 (decimal_digits env)
           \<and> 1 \<le> length H \<and> length H \<le> 2 \<and> set H \<subseteq> decimal_digits env
           \<and> 1 \<le> length M \<and> length M \<le> 2 \<and> set M \<subseteq> decimal_digits env
           \<and> 1 \<le> length S \<and> length S \<le> 2 \<and> set S \<subseteq> decimal_digits env
           \<and> t \<in> set (ustr ''Tt'') \<and> z \<in> set (ustr ''Zz'')"
proof -
  note a0 = assms [unfolded format_regex_def]
  from pat_match_Group [OF a0] obtain Y r1 g1 where
    f0: "(Y, r1) \<in> set (rx_match env re_Y s)" and
    a1: "(g1, rest) \<in> set (pat_match env [Lit CHR ''-'', Group re_m, Lit CHR ''-'', Group re_d, Lit CHR ''T'', Group re_H, Lit CHR '':'', Group re_M, Lit CHR '':'', Group re_S, Lit CHR ''Z''] r1)" and
    e0: "gs = Y # g1"
    by blast
  from pat_match_Lit [OF a1] obtain x1 r2 where
    e1: "r1 = x1 # r2" and
    c1: "ascii_lower x1 = ascii_lower (of_char CHR ''-'')" and
    a2: "(g1, rest) \<in> set (pat_match env [Group re_m, Lit CHR ''-'', Group re_d, Lit CHR ''T'', Group re_H, Lit CHR '':'', Group re_M, Lit CHR '':'', Group re_S, Lit CHR ''Z''] r2)"
    by blast
  from pat_match_Group [OF a2] obtain m r3 g2 where
    f2: "(m, r3) \<in> set (rx_match env re_m r2)" and
    a3: "(g2, rest) \<in> set (pat_match env [Lit CHR ''-'', Group re_d, Lit CHR ''T'', Group re_H, Lit CHR '':'', Group re_M, Lit CHR '':'', Group re_S, Lit CHR ''Z''] r3)" and
    e2: "g1 = m # g2"
    by blast
  from pat_match_Lit [OF a3] obtain x2 r4 where
    e3: "r3 = x2 # r4" and
    c3: "ascii_lower x2 = ascii_lower (of_char CHR ''-'')" and
    a4: "(g2, rest) \<in> set (pat_match env [Group re_d, Lit CHR ''T'', Group re_H, Lit CHR '':'', Group re_M, Lit CHR '':'', Group re_S, Lit CHR ''Z''] r4)"
    by blast
  from pat_match_Group [OF a4] obtain d r5 g3 where
    f4: "(d, r5) \<in> set (rx_match env re_d r4)" and
    a5: "(g3, rest) \<in> set (pat_match env [Lit CHR ''T'', Group re_H, Lit CHR '':'', Group re_M, Lit CHR '':'', Group re_S, Lit CHR ''Z''] r5)" and
    e4: "g2 = d # g3"
    by blast
  from pat_match_Lit [OF a5] obtain t r6 where
    e5: "r5 = t # r6" and
    c5: "ascii_lower t = ascii_lower (of_char CHR ''T'')" and
    a6: "(g3, rest) \<in> set (pat_match env [Group re_H, Lit CHR '':'', Group re_M, Lit CHR '':'', Group re_S, Lit CHR ''Z''] r6)"
    by blast
  from pat_match_Group [OF a6] obtain H r7 g4 where
    f6: "(H, r7) \<in> set (rx_match env re_H r6)" and
    a7: "(g4, rest) \<in> set (pat_match env [Lit CHR '':'', Group re_M, Lit CHR '':'', Group re_S, Lit CHR ''Z''] r7)" and
    e6: "g3 = H # g4"
    by blast
  from pat_match_Lit [OF a7] obtain x3 r8 where
    e7: "r7 = x3 # r8" and
    c7: "ascii_lower x3 = ascii_lower (of_char CHR '':'')" and
    a8: "(g4, rest) \<in> set (pat_match env [Group re_M, Lit CHR '':'', Group re_S, Lit CHR ''Z''] r8)"
    by blast
  from pat_match_Group [OF a8] obtain M r9 g5 where
    f8: "(M, r9) \<in> set (rx_match env re_M r8)" and
    a9: "(g5, rest) \<in> set (pat_match env [Lit CHR '':'', Group re_S, Lit CHR ''Z''] r9)" and
    e8: "g4 = M # g5"
    by blast
  from pat_match_Lit [OF a9] obtain x4 r10 where
    e9: "r9 = x4 # r10" and
    c9: "ascii_lower x4 = ascii_lower (of_char CHR '':'')" and
    a10: "(g5, rest) \<in> set (pat_match env [Group re_S, Lit CHR ''Z''] r10)"
    by blast
  from pat_match_Group [OF a10] obtain S r11 g6 where
    f10: "(S, r11) \<in> set (rx_match env re_S r10)" and
    a11: "(g6, rest) \<in> set (pat_match env [Lit CHR ''Z''] r11)" and
    e10: "g5 = S # g6"
    by blast
  from pat_match_Lit [OF a11] obtain z r12 where
    e11: "r11 = z # r12" and
    c11: "ascii_lower z = ascii_lower (of_char CHR ''Z'')" and
    a12: "(g6, rest) \<in> set (pat_match env [] r12)"
    by blast
  from a12 have e12: "g6 = []" "r12 = rest" by simp_all
  note fY = re_Y_field [OF f0] and fm = re_m_field [OF f2] and fd = re_d_field [OF f4]
    and fH = re_H_field [OF f6] and fM = re_M_field [OF f8] and fS = re_S_field [OF f10]
  note x = ascii_lower_dash [OF c1] ascii_lower_dash [OF c3]
    ascii_lower_colon [OF c7] ascii_lower_colon [OF c9]
  have tz: "t \<in> set (ustr ''Tt'')" "z \<in> set (ustr ''Zz'')"
    by (rule ascii_lower_T [OF c5], rule ascii_lower_Z [OF c11])
  have "s = Y @ [x1] @ m @ [x2] @ d @ [t] @ H @ [x3] @ M @ [x4] @ S @ [z] @ rest"
    using fY fm fd fH fM fS e1 e3 e5 e7 e9 e11 e12 by simp
  then have "s = Y @ ustr ''-'' @ m @ ustr ''-'' @ d @ [t] @ H @ ustr '':'' @ M @ ustr '':'' @ S
                 @ [z] @ rest"
    by (simp only: x)
  moreover have "gs = [Y, m, d, H, M, S]"
    using e0 e2 e4 e6 e8 e10 e12 by simp
  moreover have "length Y = 4" using fY by simp
  ultimately show ?thesis using fY fm fd fH fM fS tz by blast
qed

lemma strptime_Inl: "strptime env s = Inl e \<Longrightarrow> e = ValueError"
  unfolding strptime_def
  by (simp split: list.splits if_splits option.splits)

lemma if_Some_eq: "(if c then Some x else None) = Some y \<Longrightarrow> y = x"
  by (cases c) simp_all

lemma mk_datetime_Some:
  "mk_datetime y m d hh mm ss us tz = Some dt \<Longrightarrow>
   dt = \<lparr>dt_year = y, dt_month = m, dt_day = d, dt_hour = hh, dt_minute = mm,
         dt_second = ss, dt_microsecond = us, dt_tzinfo = tz\<rparr>"
  unfolding mk_datetime_def by (rule if_Some_eq)

lemma strptime_Inr:
  assumes "strptime env s = Inr dt"
  shows "\<exists>Y m d H M S. ([Y, m, d, H, M, S], []) \<in> set (pat_match env format_regex s)
           \<and> dt = \<lparr>dt_year = py_int env Y, dt_month = py_int env m, dt_day = py_int env d,
                  dt_hour = py_int env H, dt_minute = py_int env M, dt_second = py_int env S,
                  dt_microsecond = 0, dt_tzinfo = None\<rparr>"
proof (cases "pat_match env format_regex s")
  case Nil
  with assms show ?thesis by (simp add: strptime_def)
next
  case (Cons found more)
  with assms have rest: "snd found = []"
    by (simp add: strptime_def split: if_splits)
  with Cons assms obtain Y m d H M S where
    gs: "fst found = [Y, m, d, H, M, S]" and
    mk: "mk_datetime (py_int env Y) (py_int env m) (py_int env d)
           (py_int env H) (py_int env M) (py_int env S) 0 None = Some dt"
    by (auto simp: strptime_def split: list.splits option.splits)
  from gs rest have "([Y, m, d, H, M, S], []) = found" by (cases found) simp
  with Cons have "([Y, m, d, H, M, S], []) \<in> set (pat_match env format_regex s)"
    by (metis list.set_intros(1))
  with mk_datetime_Some [OF mk] show ?thesis by blast
qed

lemma to_utc_iso8601_Inr:
  assumes "to_utc_iso8601 env v = Inr dt"
  shows "\<exists>s Y m d H M S t z.
           v = JStr s
           \<and> s = Y @ ustr ''-'' @ m @ ustr ''-'' @ d @ [t] @ H @ ustr '':'' @ M @ ustr '':'' @ S @ [z]
           \<and> length Y = 4 \<and> set Y \<subseteq> decimal_digits env
           \<and> 1 \<le> length m \<and> length m \<le> 2 \<and> set m \<subseteq> set (ustr ''0123456789'')
           \<and> 1 \<le> length d \<and> length d \<le> 2 \<and> set d \<subseteq> insert 32 (decimal_digits env)
           \<and> 1 \<le> length H \<and> length H \<le> 2 \<and> set H \<subseteq> decimal_digits env
           \<and> 1 \<le> length M \<and> length M \<le> 2 \<and> set M \<subseteq> decimal_digits env
           \<and> 1 \<le> length S \<and> length S \<le> 2 \<and> set S \<subseteq> decimal_digits env
           \<and> t \<in> set (ustr ''Tt'') \<and> z \<in> set (ustr ''Zz'')
           \<and> dt = \<lparr>dt_year = py_int env Y, dt_month = py_int env m, dt_day = py_int env d,
                  dt_hour = py_int env H, dt_minute = py_int env M, dt_second = py_int env S,
                  dt_microsecond = 0, dt_tzinfo = Some UTC\<rparr>"
proof -
  from assms obtain s where v: "v = JStr s" by (cases v) simp_all
  with assms obtain dt0 where
    p: "strptime env s = Inr dt0" and dt: "dt = dt0\<lparr>dt_tzinfo := Some UTC\<rparr>"
    by (auto simp: bind_def split: sum.splits)
  from strptime_Inr [OF p] obtain Y m d H M S where
    found: "([Y, m, d, H, M, S], []) \<in> set (pat_match env format_regex s)" and
    dt0: "dt0 = \<lparr>dt_year = py_int env Y, dt_month = py_int env m, dt_day = py_int env d,
                  dt_hour = py_int env H, dt_minute = py_int env M, dt_second = py_int env S,
                  dt_microsecond = 0, dt_tzinfo = None\<rparr>"
    by blast
  from format_regex_match [OF found] obtain Y' m' d' H' M' S' t z where
    shape: "s = Y' @ ustr ''-'' @ m' @ ustr ''-'' @ d' @ [t] @ H' @ ustr '':'' @ M' @ ustr '':'' @ S'
                 @ [z] @ []"
    and gs: "[Y, m, d, H, M, S] = [Y', m', d', H', M', S']"
    and fields: "length Y' = 4" "set Y' \<subseteq> decimal_digits env"
      "1 \<le> length m'" "length m' \<le> 2" "set m' \<subseteq> set (ustr ''0123456789'')"
      "1 \<le> length d'" "length d' \<le> 2" "set d' \<subseteq> insert 32 (decimal_digits env)"
      "1 \<le> length H'" "length H' \<le> 2" "set H' \<subseteq> decimal_digits env"
      "1 \<le> length M'" "length M' \<le> 2" "set M' \<subseteq> decimal_digits env"
      "1 \<le> length S'" "length S' \<le> 2" "set S' \<subseteq> decimal_digits env"
      "t \<in> set (ustr ''Tt'')" "z \<in> set (ustr ''Zz'')"
    by blast
  from gs have eq: "Y' = Y" "m' = m" "d' = d" "H' = H" "M' = M" "S' = S" by simp_all
  from shape have "s = Y @ ustr ''-'' @ m @ ustr ''-'' @ d @ [t] @ H @ ustr '':'' @ M @ ustr '':'' @ S @ [z]"
    unfolding eq by simp
  moreover from dt dt0 have "dt = \<lparr>dt_year = py_int env Y, dt_month = py_int env m, dt_day = py_int env d,
                  dt_hour = py_int env H, dt_minute = py_int env M, dt_second = py_int env S,
                  dt_microsecond = 0, dt_tzinfo = Some UTC\<rparr>"
    by simp
  ultimately show ?thesis using v fields unfolding eq by blast
qed

lemma to_utc_iso8601_Inl: "to_utc_iso8601 env (JStr s) = Inl e \<Longrightarrow> e = ValueError"
  by (auto simp: bind_def split: sum.splits dest: strptime_Inl)

text \<open>The malformed timestamps the specification names all fail.\<close>

lemma iso_examples:
  "to_utc_iso8601 env (JStr (ustr ''2024-01-01T00:00:00.5Z'')) = Inl ValueError"
  "to_utc_iso8601 env (JStr (ustr ''2024-01-01T00:00:00+00:00'')) = Inl ValueError"
  "to_utc_iso8601 env (JStr (ustr ''2024-01-01 00:00:00'')) = Inl ValueError"
  by code_simp+

text \<open>A year in fullwidth digits is accepted and read by its value.\<close>

lemma fullwidth_example:
  "to_utc_iso8601 fullwidth_env (JStr fullwidth_time) =
     Inr \<lparr>dt_year = 2024, dt_month = 1, dt_day = 1, dt_hour = 0, dt_minute = 0,
           dt_second = 0, dt_microsecond = 0, dt_tzinfo = Some UTC\<rparr>"
  by (simp add: fullwidth_env_def fullwidth_time_def example_env_def strptime_def format_regex_def
      re_Y_def re_m_def re_d_def re_H_def re_M_def re_S_def ustr_def decimal_value_def py_int_def
      mk_datetime_def bind_def ascii_lower_def days_in_month_def is_leap_def)

text \<open>
  Claim C7, as the code has it. The ISO variant either fails with \<^verbatim>\<open>ValueError\<close> (the
  specification calls it TimestampFormatError) or the string is a year of four decimal
  digits, \<^verbatim>\<open>-\<close>, a month, \<^verbatim>\<open>-\<close>, a day, \<^verbatim>\<open>T\<close> or \<^verbatim>\<open>t\<close>, an hour, \<^verbatim>\<open>:\<close>, a minute, \<^verbatim>\<open>:\<close>, a second
  and \<^verbatim>\<open>Z\<close> or \<^verbatim>\<open>z\<close>, with nothing before or after, where the month is one or two ASCII
  digits, hour, minute and second are one or two decimal digits and the day is one or
  two characters, decimal digits or a blank; a decimal digit is any character of the
  Unicode category Nd. Then the result is the aware UTC \<^verbatim>\<open>datetime\<close> of the numbers the
  fields spell. So a blank in place of \<^verbatim>\<open>T\<close>, a missing \<^verbatim>\<open>Z\<close>, fractional seconds and an
  offset other than \<^verbatim>\<open>Z\<close> all fail.
\<close>

theorem iso_variant_rejects_other_shapes:
  "to_utc_iso8601 env (JStr s) = Inl ValueError
   \<or> (\<exists>Y m d H M S t z.
         s = Y @ ustr ''-'' @ m @ ustr ''-'' @ d @ [t] @ H @ ustr '':'' @ M @ ustr '':'' @ S @ [z]
         \<and> length Y = 4 \<and> set Y \<subseteq> decimal_digits env
           \<and> 1 \<le> length m \<and> length m \<le> 2 \<and> set m \<subseteq> set (ustr ''0123456789'')
           \<and> 1 \<le> length d \<and> length d \<le> 2 \<and> set d \<subseteq> insert 32 (decimal_digits env)
           \<and> 1 \<le> length H \<and> length H \<le> 2 \<and> set H \<subseteq> decimal_digits env
           \<and> 1 \<le> length M \<and> length M \<le> 2 \<and> set M \<subseteq> decimal_digits env
           \<and> 1 \<le> length S \<and> length S \<le> 2 \<and> set S \<subseteq> decimal_digits env
           \<and> t \<in> set (ustr ''Tt'') \<and> z \<in> set (ustr ''Zz'')
         \<and> to_utc_iso8601 env (JStr s) =
             Inr \<lparr>dt_year = py_int env Y, dt_month = py_int env m, dt_day = py_int env d,
                  dt_hour = py_int env H, dt_minute = py_int env M, dt_second = py_int env S,
                  dt_microsecond = 0, dt_tzinfo = Some UTC\<rparr>)"
proof (cases "to_utc_iso8601 env (JStr s)")
  case (Inl e)
  from to_utc_iso8601_Inl [OF Inl] have e: "e = ValueError" .
  from Inl show ?thesis unfolding e by (rule disjI1)
next
  case (Inr dt)
  from to_utc_iso8601_Inr [OF Inr] show ?thesis
  proof (elim exE conjE)
    fix s' Y m d H M S t z
    assume v: "JStr s = JStr s'"
      and shape: "s' = Y @ ustr ''-'' @ m @ ustr ''-'' @ d @ [t] @ H @ ustr '':'' @ M @ ustr '':'' @ S @ [z]"
      and fields: "length Y = 4" "set Y \<subseteq> decimal_digits env"
        "1 \<le> length m" "length m \<le> 2" "set m \<subseteq> set (ustr ''0123456789'')"
        "1 \<le> length d" "length d \<le> 2" "set d \<subseteq> insert 32 (decimal_digits env)"
        "1 \<le> length H" "length H \<le> 2" "set H \<subseteq> decimal_digits env"
        "1 \<le> length M" "length M \<le> 2" "set M \<subseteq> decimal_digits env"
        "1 \<le> length S" "length S \<le> 2" "set S \<subseteq> decimal_digits env"
        "t \<in> set (ustr ''Tt'')" "z \<in> set (ustr ''Zz'')"
      and dt: "dt = \<lparr>dt_year = py_int env Y, dt_month = py_int env m, dt_day = py_int env d,
                  dt_hour = py_int env H, dt_minute = py_int env M, dt_second = py_int env S,
                  dt_microsecond = 0, dt_tzinfo = Some UTC\<rparr>"
    from v have s': "s' = s" by (simp only: json.inject)
    note shape' = shape [unfolded s']
    note res = Inr [unfolded dt]
    show ?thesis by (intro disjI2 exI conjI) (rule shape' fields res)+
  qed
qed

theorem iso_variant_rejects_other_shapes_witness:
  "to_utc_iso8601 example_env (JStr (ustr ''2024-01-01 00:00:00'')) = Inl ValueError"
  using iso_variant_rejects_other_shapes [of example_env "ustr ''2024-01-01 00:00:00''"]
proof (elim disjE exE conjE)
  assume "to_utc_iso8601 example_env (JStr (ustr ''2024-01-01 00:00:00'')) = Inl ValueError"
  then show ?thesis .
next
  fix Y m d H M S t z
  assume eq: "ustr ''2024-01-01 00:00:00'' =
      Y @ ustr ''-'' @ m @ ustr ''-'' @ d @ [t] @ H @ ustr '':'' @ M @ ustr '':'' @ S @ [z]"
    and t: "t \<in> set (ustr ''Tt'')"
  have "t \<in> set (Y @ ustr ''-'' @ m @ ustr ''-'' @ d @ [t] @ H @ ustr '':'' @ M @ ustr '':'' @ S @ [z])"
    by simp
  then have "t \<in> set (ustr ''2024-01-01 00:00:00'')" by (simp only: eq [symmetric])
  with t show ?thesis by (auto simp: ustr_def)
qed

text \<open>
  Claim C7 as stated fails: fields without the leading zero, and the letters in lower
  case, deviate from the shape \<^verbatim>\<open>YYYY-MM-DDTHH:MM:SSZ\<close> and are accepted all the same.
\<close>

theorem iso_variant_accepts_unpadded_counterexample:
  "to_utc_iso8601 example_env (JStr (ustr ''2024-1-1T0:0:0Z'')) =
     Inr \<lparr>dt_year = 2024, dt_month = 1, dt_day = 1, dt_hour = 0, dt_minute = 0,
           dt_second = 0, dt_microsecond = 0, dt_tzinfo = Some UTC\<rparr>
   \<and> to_utc_iso8601 example_env (JStr (ustr ''2024-01-01t00:00:00z'')) =
     Inr \<lparr>dt_year = 2024, dt_month = 1, dt_day = 1, dt_hour = 0, dt_minute = 0,
           dt_second = 0, dt_microsecond = 0, dt_tzinfo = Some UTC\<rparr>"
  by code_simp

section \<open>The price record\<close>

lemma valid_samples_Cons:
  "valid_samples (item # rest) =
     (if in_regions item = Inr True then item # valid_samples rest else valid_samples rest)"
  by (simp add: valid_samples_def)

lemma sample_price_Inr:
  "sample_price env item = Inr p \<Longrightarrow>
   \<exists>v. py_get item ''price'' = Inr v \<and> py_float env v = Inr p"
  by (cases "py_get item ''price''") (simp_all add: sample_price_def bind_def)

lemma price_loop_Inr:
  "price_loop env items st = Inr st' \<Longrightarrow>
     (\<exists>ps. fst st' = fst st @ ps
         \<and> list_all2 (\<lambda>item p. \<exists>v. py_get item ''price'' = Inr v \<and> py_float env v = Inr p)
              (valid_samples items) ps)
     \<and> (valid_samples items = [] \<longrightarrow> snd st' = snd st)
     \<and> (valid_samples items \<noteq> [] \<longrightarrow>
          (\<exists>time. py_get (last (valid_samples items)) ''timestamp'' = Inr time
             \<and> snd st' = Some time))"
proof (induction items arbitrary: st)
  case Nil
  then show ?case by (simp add: valid_samples_def)
next
  case (Cons item rest)
  show ?case
  proof (cases "in_regions item = Inr True")
    case True
    with Cons.prems obtain time price where
      t: "py_get item ''timestamp'' = Inr time" and
      p: "sample_price env item = Inr price" and
      loop: "price_loop env rest (fst st @ [price], Some time) = Inr st'"
      by (auto split: sum.splits)
    from Cons.IH [OF loop] True t sample_price_Inr [OF p] show ?thesis
      by (auto simp: valid_samples_Cons)
  next
    case False
    with Cons.prems have "price_loop env rest st = Inr st'"
      by (auto split: sum.splits if_splits)
    from Cons.IH [OF this] False show ?thesis
      by (simp add: valid_samples_Cons)
  qed
qed

lemma price_loop_no_valid:
  "\<forall>item\<in>set items. in_regions item = Inr False \<Longrightarrow> price_loop env items st = Inr st"
  by (induction items arbitrary: st) auto

lemma normalize_price_Inr:
  assumes "normalize_price env zone_key obj = Inr r"
  shows "\<exists>items prices time.
           payload_items obj = Inr items
           \<and> price_loop env items ([], None) = Inr (prices, Some time)
           \<and> prices \<noteq> []
           \<and> pr_price r = float_truediv env (float_sum env prices) (int (length prices))
           \<and> to_utc_iso8601 env time = Inr (pr_datetime r)"
  using assms unfolding normalize_price_def bind_def average_def
  by (auto split: sum.splits if_splits option.splits)

lemma fetch_price_Inr:
  assumes "fst (fetch_price env zone_key target_datetime) = Inr r"
  shows "\<exists>text obj. target_datetime = None \<and> http_get env PRICE_URL = Inr text
           \<and> json_loads env text = Some obj \<and> normalize_price env zone_key obj = Inr r"
  using assms unfolding fetch_price_def bind_def response_json_def
  by (auto split: option.splits sum.splits)

lemma fetch_price_loop:
  assumes run: "fst (fetch_price env zone_key target_datetime) = Inr r"
    and body: "http_get env PRICE_URL = Inr text"
    and obj: "json_loads env text = Some obj"
    and items: "payload_items obj = Inr items"
  shows "\<exists>prices time. price_loop env items ([], None) = Inr (prices, Some time)
           \<and> prices \<noteq> []
           \<and> pr_price r = float_truediv env (float_sum env prices) (int (length prices))
           \<and> to_utc_iso8601 env time = Inr (pr_datetime r)"
proof -
  from fetch_price_Inr [OF run] body obj
  have "normalize_price env zone_key obj = Inr r" by auto
  from normalize_price_Inr [OF this] items show ?thesis by auto
qed

lemma price_env_items:
  "http_get price_env PRICE_URL = Inr (ustr ''body'')"
  "json_loads price_env (ustr ''body'') = Some (JObj [(ustr ''items'', JArr price_items)])"
  "payload_items (JObj [(ustr ''items'', JArr price_items)]) = Inr price_items"
  by (simp_all add: price_env_def example_env_def payload_items_def py_get_def bind_def)

lemma late_env_items:
  "http_get late_env PRICE_URL = Inr (ustr ''body'')"
  "json_loads late_env (ustr ''body'') = Some (JObj [(ustr ''items'', JArr late_items)])"
  "payload_items (JObj [(ustr ''items'', JArr late_items)]) = Inr late_items"
  by (simp_all add: late_env_def example_env_def payload_items_def py_get_def bind_def)

lemma valid_samples_example: "valid_samples price_items = [price_items ! 0, price_items ! 1]"
  by code_simp

lemma valid_samples_late: "valid_samples late_items = [late_items ! 0, late_items ! 1]"
  by code_simp











text \<open>
  Claim C4. When \<^verbatim>\<open>fetch_price\<close> returns a record, some sample is of a price region, and
  the \<^verbatim>\<open>datetime\<close> of the record is the timestamp of the last such sample in the order of
  the payload, parsed by the ISO variant as a UTC time: that timestamp is a string of
  the fields year, month, day, hour, minute and second between their separators, and
  the \<^verbatim>\<open>datetime\<close> holds the numbers these fields spell, with the time zone UTC.
\<close>

theorem datetime_from_last_valid_sample:
  assumes run: "fst (fetch_price env zone_key target_datetime) = Inr r"
    and body: "http_get env PRICE_URL = Inr text"
    and obj: "json_loads env text = Some obj"
    and items: "payload_items obj = Inr items"
  shows "valid_samples items \<noteq> []
       \<and> (\<exists>s Y m d H M S t z.
             py_get (last (valid_samples items)) ''timestamp'' = Inr (JStr s)
             \<and> s = Y @ ustr ''-'' @ m @ ustr ''-'' @ d @ [t] @ H @ ustr '':'' @ M @ ustr '':'' @ S @ [z]
             \<and> t \<in> set (ustr ''Tt'') \<and> z \<in> set (ustr ''Zz'')
             \<and> pr_datetime r =
                 \<lparr>dt_year = py_int env Y, dt_month = py_int env m, dt_day = py_int env d,
                  dt_hour = py_int env H, dt_minute = py_int env M, dt_second = py_int env S,
                  dt_microsecond = 0, dt_tzinfo = Some UTC\<rparr>
             \<and> to_utc_iso8601 env (JStr s) = Inr (pr_datetime r))"
proof -
  from fetch_price_loop [OF run body obj items] obtain prices time where
    loop: "price_loop env items ([], None) = Inr (prices, Some time)" and
    ne: "prices \<noteq> []" and
    dt: "to_utc_iso8601 env time = Inr (pr_datetime r)"
    by auto
  from price_loop_Inr [OF loop] ne have valid: "valid_samples items \<noteq> []"
    by auto
  with price_loop_Inr [OF loop]
  have last: "py_get (last (valid_samples items)) ''timestamp'' = Inr time"
    by auto
  from to_utc_iso8601_Inr [OF dt] obtain s Y m d H M S t z where
    time: "time = JStr s"
    and shape: "s = Y @ ustr ''-'' @ m @ ustr ''-'' @ d @ [t] @ H @ ustr '':'' @ M @ ustr '':'' @ S @ [z]"
    and tz: "t \<in> set (ustr ''Tt'')" "z \<in> set (ustr ''Zz'')"
    and fields: "pr_datetime r =
                 \<lparr>dt_year = py_int env Y, dt_month = py_int env m, dt_day = py_int env d,
                  dt_hour = py_int env H, dt_minute = py_int env M, dt_second = py_int env S,
                  dt_microsecond = 0, dt_tzinfo = Some UTC\<rparr>"
    by blast
  note last' = last [unfolded time] and dt' = dt [unfolded time]
  have "\<exists>s Y m d H M S t z.
             py_get (last (valid_samples items)) ''timestamp'' = Inr (JStr s)
             \<and> s = Y @ ustr ''-'' @ m @ ustr ''-'' @ d @ [t] @ H @ ustr '':'' @ M @ ustr '':'' @ S @ [z]
             \<and> t \<in> set (ustr ''Tt'') \<and> z \<in> set (ustr ''Zz'')
             \<and> pr_datetime r =
                 \<lparr>dt_year = py_int env Y, dt_month = py_int env m, dt_day = py_int env d,
                  dt_hour = py_int env H, dt_minute = py_int env M, dt_second = py_int env S,
                  dt_microsecond = 0, dt_tzinfo = Some UTC\<rparr>
             \<and> to_utc_iso8601 env (JStr s) = Inr (pr_datetime r)"
    by (intro exI conjI) (rule last' shape tz fields dt')+
  with valid show ?thesis by (rule conjI)
qed

lemma timestamp_fields_example:
  "py_get (price_items ! 1) ''timestamp'' = Inr (JStr (ustr ''2024-01-01T00:05:00Z''))"
  "py_get (late_items ! 1) ''timestamp'' = Inr (JStr (ustr ''2023-06-15T08:30:00Z''))"
  by code_simp+

theorem datetime_from_last_valid_sample_witness:
  "fst (fetch_price price_env ''NZ'' None) = Inr price_result
   \<and> http_get price_env PRICE_URL = Inr (ustr ''body'')
   \<and> json_loads price_env (ustr ''body'') = Some (JObj [(ustr ''items'', JArr price_items)])
   \<and> payload_items (JObj [(ustr ''items'', JArr price_items)]) = Inr price_items
   \<and> last (valid_samples price_items) = price_items ! 1
   \<and> py_get (price_items ! 1) ''timestamp'' = Inr (JStr (ustr ''2024-01-01T00:05:00Z''))
   \<and> to_utc_iso8601 price_env (JStr (ustr ''2024-01-01T00:05:00Z'')) = Inr (pr_datetime price_result)
   \<and> pr_datetime price_result =
       \<lparr>dt_year = 2024, dt_month = 1, dt_day = 1, dt_hour = 0, dt_minute = 5,
        dt_second = 0, dt_microsecond = 0, dt_tzinfo = Some UTC\<rparr>
   \<and> fst (fetch_price late_env ''NZ'' None) = Inr late_result
   \<and> http_get late_env PRICE_URL = Inr (ustr ''body'')
   \<and> json_loads late_env (ustr ''body'') = Some (JObj [(ustr ''items'', JArr late_items)])
   \<and> payload_items (JObj [(ustr ''items'', JArr late_items)]) = Inr late_items
   \<and> last (valid_samples late_items) = late_items ! 1
   \<and> py_get (late_items ! 1) ''timestamp'' = Inr (JStr (ustr ''2023-06-15T08:30:00Z''))
   \<and> to_utc_iso8601 late_env (JStr (ustr ''2023-06-15T08:30:00Z'')) = Inr (pr_datetime late_result)
   \<and> pr_datetime late_result =
       \<lparr>dt_year = 2023, dt_month = 6, dt_day = 15, dt_hour = 8, dt_minute = 30,
        dt_second = 0, dt_microsecond = 0, dt_tzinfo = Some UTC\<rparr>"
proof -
  have run: "fst (fetch_price price_env ''NZ'' None) = Inr price_result"
    by (simp add: fetch_price_example)
  have run': "fst (fetch_price late_env ''NZ'' None) = Inr late_result"
    by (simp add: fetch_price_late_example)
  have l: "last (valid_samples price_items) = price_items ! 1"
    by (simp add: valid_samples_example)
  have l': "last (valid_samples late_items) = late_items ! 1"
    by (simp add: valid_samples_late)
  from datetime_from_last_valid_sample [OF run price_env_items] obtain s where
    "py_get (last (valid_samples price_items)) ''timestamp'' = Inr (JStr s)"
    "to_utc_iso8601 price_env (JStr s) = Inr (pr_datetime price_result)"
    by blast
  then have a: "to_utc_iso8601 price_env (JStr (ustr ''2024-01-01T00:05:00Z''))
      = Inr (pr_datetime price_result)"
    unfolding l timestamp_fields_example by simp
  from datetime_from_last_valid_sample [OF run' late_env_items] obtain s' where
    "py_get (last (valid_samples late_items)) ''timestamp'' = Inr (JStr s')"
    "to_utc_iso8601 late_env (JStr s') = Inr (pr_datetime late_result)"
    by blast
  then have b: "to_utc_iso8601 late_env (JStr (ustr ''2023-06-15T08:30:00Z''))
      = Inr (pr_datetime late_result)"
    unfolding l' timestamp_fields_example by simp
  have c: "pr_datetime price_result =
       \<lparr>dt_year = 2024, dt_month = 1, dt_day = 1, dt_hour = 0, dt_minute = 5,
        dt_second = 0, dt_microsecond = 0, dt_tzinfo = Some UTC\<rparr>"
    by (simp add: price_result_def)
  have d: "pr_datetime late_result =
       \<lparr>dt_year = 2023, dt_month = 6, dt_day = 15, dt_hour = 8, dt_minute = 30,
        dt_second = 0, dt_microsecond = 0, dt_tzinfo = Some UTC\<rparr>"
    by (simp add: late_result_def)
  show ?thesis
    by (intro conjI) (rule run run' price_env_items late_env_items l l' timestamp_fields_example
        a b c d)+
qed

text \<open>
  Claim C2, as the code has it. When the payload is read and every sample is of a region
  that is not a price region, \<^verbatim>\<open>fetch_price\<close> fails with \<^verbatim>\<open>ZeroDivisionError\<close>, the
  exception of the division that averages, and returns no record.
\<close>

theorem no_valid_sample_zero_division:
  assumes body: "http_get env PRICE_URL = Inr text"
    and obj: "json_loads env text = Some obj"
    and items: "payload_items obj = Inr items"
    and none: "\<forall>item\<in>set items. in_regions item = Inr False"
  shows "fetch_price env zone_key None = (Inl ZeroDivisionError, [PRICE_URL])"
  using body obj items price_loop_no_valid [OF none]
  by (simp add: fetch_price_def bind_def response_json_def normalize_price_def average_def)

lemma no_price_env_items:
  "http_get no_price_env PRICE_URL = Inr (ustr ''body'')"
  "json_loads no_price_env (ustr ''body'') = Some (JObj [(ustr ''items'', JArr [price_items ! 2])])"
  "payload_items (JObj [(ustr ''items'', JArr [price_items ! 2])]) = Inr [price_items ! 2]"
  by (simp_all add: no_price_env_def example_env_def payload_items_def py_get_def bind_def)

lemma in_regions_99: "in_regions (price_items ! 2) = Inr False"
  by code_simp

theorem no_valid_sample_zero_division_witness:
  "http_get no_price_env PRICE_URL = Inr (ustr ''body'')
   \<and> json_loads no_price_env (ustr ''body'') = Some (JObj [(ustr ''items'', JArr [price_items ! 2])])
   \<and> payload_items (JObj [(ustr ''items'', JArr [price_items ! 2])]) = Inr [price_items ! 2]
   \<and> in_regions (price_items ! 2) = Inr False
   \<and> fetch_price no_price_env ''NZ'' None = (Inl ZeroDivisionError, [PRICE_URL])"
proof -
  have none: "\<forall>item\<in>set [price_items ! 2]. in_regions item = Inr False"
    by (simp add: in_regions_99)
  from no_valid_sample_zero_division [OF no_price_env_items none, of "''NZ''"]
    no_price_env_items in_regions_99
  show ?thesis by simp
qed

text \<open>
  Claim C2 as stated fails: on a payload whose only sample is of region 99 no sample
  survives the filter, and the failure is the arithmetic exception itself.
\<close>

theorem no_valid_sample_counterexample:
  "valid_samples [price_items ! 2] = []
   \<and> fetch_price no_price_env ''NZ'' None = (Inl ZeroDivisionError, [PRICE_URL])"
  by code_simp

section \<open>The embedded JSON\<close>

lemma selected_scripts_Cons:
  "selected_scripts (item # rest) =
     (if has_selector item then item # selected_scripts rest else selected_scripts rest)"
  by (simp add: selected_scripts_def)

lemma fetch_loop_Inr:
  "fetch_loop env tags obj = Inr obj' \<Longrightarrow>
     (selected_scripts tags = [] \<longrightarrow> obj' = obj)
     \<and> (selected_scripts tags \<noteq> [] \<longrightarrow>
          (\<exists>v. script_json env (last (selected_scripts tags)) = Inr v \<and> obj' = Some v))"
proof (induction tags arbitrary: obj)
  case Nil
  then show ?case by (simp add: selected_scripts_def)
next
  case (Cons item rest)
  show ?case
  proof (cases "has_selector item")
    case True
    with Cons.prems obtain v where
      v: "script_json env item = Inr v" and
      loop: "fetch_loop env rest (Some v) = Inr obj'"
      by (auto split: sum.splits)
    from Cons.IH [OF loop] True v show ?thesis
      by (auto simp: selected_scripts_Cons)
  next
    case False
    with Cons.prems have "fetch_loop env rest obj = Inr obj'" by simp
    from Cons.IH [OF this] False show ?thesis
      by (simp add: selected_scripts_Cons)
  qed
qed

lemma fetch_loop_returns:
  "\<forall>item\<in>set (selected_scripts tags). \<exists>v. script_json env item = Inr v \<Longrightarrow>
   \<exists>obj'. fetch_loop env tags obj = Inr obj'"
  by (induction tags arbitrary: obj) (auto simp: selected_scripts_Cons split: if_splits)

lemma several_env_page:
  "http_get several_env PRODUCTION_URL = Inr (ustr ''page'')"
  "find_all_script several_env (ustr ''page'') = several_tags"
  by (simp_all add: several_env_def marker_env_def example_env_def)

lemma unmarked_env_page:
  "http_get unmarked_env PRODUCTION_URL = Inr (ustr ''page'')"
  "find_all_script unmarked_env (ustr ''page'') = unmarked_tags"
  by (simp_all add: unmarked_env_def marker_env_def example_env_def)

lemma several_selected: "selected_scripts several_tags = [several_tags ! 0, several_tags ! 2]"
  by code_simp

lemma unmarked_selected: "selected_scripts unmarked_tags = []"
  by code_simp

lemma several_script_json:
  "script_json several_env (several_tags ! 0) = Inr (JInt 1)"
  "script_json several_env (several_tags ! 2) = Inr (JInt 2)"
  by code_simp+

text \<open>
  Claim C5, as the code has it. The script elements that count are those whose
  \<^verbatim>\<open>data-drupal-selector\<close> attribute has a value that is not empty. When there is none,
  \<^verbatim>\<open>fetch\<close> fails with \<^verbatim>\<open>UnboundLocalError\<close> (nothing was assigned; the specification calls
  it ExtractionError). When there is one and the first child of each is JSON, \<^verbatim>\<open>fetch\<close>
  returns the JSON of the last of them in document order. Whenever \<^verbatim>\<open>fetch\<close> returns, it
  returns the JSON of the last of them.
\<close>

theorem fetch_last_selected_script:
  assumes page: "http_get env PRODUCTION_URL = Inr text"
    and tags: "find_all_script env text = tags"
  shows "(selected_scripts tags = [] \<longrightarrow> fst (fetch env) = Inl UnboundLocalError)
       \<and> (selected_scripts tags \<noteq> []
            \<and> (\<forall>item\<in>set (selected_scripts tags). \<exists>v. script_json env item = Inr v) \<longrightarrow>
          fst (fetch env) = script_json env (last (selected_scripts tags)))
       \<and> (\<forall>v. fst (fetch env) = Inr v \<longrightarrow>
            selected_scripts tags \<noteq> []
            \<and> script_json env (last (selected_scripts tags)) = Inr v)"
proof (intro conjI impI allI)
  assume "selected_scripts tags = []"
  then have "\<exists>obj'. fetch_loop env tags None = Inr obj'"
    using fetch_loop_returns [of tags env None] by simp
  then obtain obj' where loop: "fetch_loop env tags None = Inr obj'" ..
  from fetch_loop_Inr [OF loop] \<open>selected_scripts tags = []\<close> have "obj' = None" by simp
  with loop page tags show "fst (fetch env) = Inl UnboundLocalError"
    by (simp add: fetch_def bind_def)
next
  assume a: "selected_scripts tags \<noteq> []
    \<and> (\<forall>item\<in>set (selected_scripts tags). \<exists>v. script_json env item = Inr v)"
  then obtain obj' where loop: "fetch_loop env tags None = Inr obj'"
    using fetch_loop_returns [of tags env None] by auto
  from fetch_loop_Inr [OF loop] a obtain v where
    "script_json env (last (selected_scripts tags)) = Inr v" "obj' = Some v" by auto
  with loop page tags show "fst (fetch env) = script_json env (last (selected_scripts tags))"
    by (simp add: fetch_def bind_def)
next
  fix v assume "fst (fetch env) = Inr v"
  with page tags have loop: "fetch_loop env tags None = Inr (Some v)"
    by (auto simp: fetch_def bind_def split: sum.splits option.splits)
  from fetch_loop_Inr [OF loop] show "selected_scripts tags \<noteq> []" by auto
  with fetch_loop_Inr [OF loop] show "script_json env (last (selected_scripts tags)) = Inr v"
    by auto
qed

theorem fetch_last_selected_script_witness:
  "http_get several_env PRODUCTION_URL = Inr (ustr ''page'')
   \<and> find_all_script several_env (ustr ''page'') = several_tags
   \<and> selected_scripts several_tags = [several_tags ! 0, several_tags ! 2]
   \<and> script_json several_env (several_tags ! 0) = Inr (JInt 1)
   \<and> script_json several_env (several_tags ! 2) = Inr (JInt 2)
   \<and> fst (fetch several_env) = Inr (JInt 2)
   \<and> http_get unmarked_env PRODUCTION_URL = Inr (ustr ''page'')
   \<and> find_all_script unmarked_env (ustr ''page'') = unmarked_tags
   \<and> selected_scripts unmarked_tags = []
   \<and> fst (fetch unmarked_env) = Inl UnboundLocalError"
proof -
  have sel: "selected_scripts several_tags \<noteq> []
      \<and> (\<forall>item\<in>set (selected_scripts several_tags). \<exists>v. script_json several_env item = Inr v)"
    by (simp add: several_selected several_script_json)
  have "fst (fetch several_env)
      = script_json several_env (last (selected_scripts several_tags))"
    using fetch_last_selected_script [OF several_env_page] sel by blast
  then have a: "fst (fetch several_env) = Inr (JInt 2)"
    by (simp add: several_selected several_script_json)
  have b: "fst (fetch unmarked_env) = Inl UnboundLocalError"
    using fetch_last_selected_script [OF unmarked_env_page] unmarked_selected by blast
  show ?thesis
    by (intro conjI) (rule several_env_page unmarked_env_page several_selected
        several_script_json unmarked_selected a b)+
qed

text \<open>
  Claim C5 as stated fails: the last script element of this page carries the marker
  attribute, with the empty value, and its content is the JSON 2; \<^verbatim>\<open>fetch\<close> passes it over
  and returns the JSON 1 of the element before.
\<close>

theorem fetch_empty_marker_counterexample:
  "map_of (tag_attrs (last (find_all_script marker_env (ustr ''page''))))
       (ustr ''data-drupal-selector'') = Some []
   \<and> script_json marker_env (last (find_all_script marker_env (ustr ''page''))) = Inr (JInt 2)
   \<and> fst (fetch marker_env) = Inr (JInt 1)"
  by code_simp

end
